theory Spec2Isabelle
  imports Complex_Main "HOL-Library.Multiset"
begin

section \<open>Tree model\<close>

text \<open>
  A structogram is a tree of tagged objects; every node carries the link
  \<open>followElement\<close> to the rest of its chain. Strings are lists of 8-bit characters,
  read as the code units U+0000 .. U+00FF; numbers are real numbers (rounding of the
  double-precision arithmetic is not modelled). A missing or \<open>null\<close> link is \<open>Null\<close>, a
  missing \<open>id\<close> is \<open>None\<close>.
\<close>

type_synonym ident = string

datatype param = Param (pos: string) (parName: string)

datatype node =
    Null
  | Placeholder "ident option"
  | InsertNode "ident option" node
  | TaskNode "ident option" string node
  | InputNode "ident option" string node
  | OutputNode "ident option" string node
  | BranchNode "ident option" string "real list option" node node node
  | CaseNode "ident option" string "real list option" bool node "node list" node
  | InsertCase "ident option" string node
  | HeadLoopNode "ident option" string node node
  | CountLoopNode "ident option" string node node
  | FootLoopNode "ident option" string node node
  | FunctionNode "ident option" string "param list" node node
  | TryCatchNode "ident option" string node node node

text \<open>
  Field order of the constructors: \<open>BranchNode id text columnWidths trueChild falseChild
  followElement\<close>, \<open>CaseNode id text columnWidths defaultOn defaultNode cases
  followElement\<close>, the loops \<open>id text child followElement\<close>, \<open>FunctionNode id text
  parameters child followElement\<close>, \<open>TryCatchNode id text tryChild catchChild
  followElement\<close>.
\<close>

fun node_id :: "node \<Rightarrow> ident option" where
  "node_id Null = None"
| "node_id (Placeholder i) = i"
| "node_id (InsertNode i f) = i"
| "node_id (TaskNode i t f) = i"
| "node_id (InputNode i t f) = i"
| "node_id (OutputNode i t f) = i"
| "node_id (BranchNode i t cw tc fc f) = i"
| "node_id (CaseNode i t cw don dn cs f) = i"
| "node_id (InsertCase i t f) = i"
| "node_id (HeadLoopNode i t ch f) = i"
| "node_id (CountLoopNode i t ch f) = i"
| "node_id (FootLoopNode i t ch f) = i"
| "node_id (FunctionNode i t ps ch f) = i"
| "node_id (TryCatchNode i t tc cc f) = i"

fun node_type :: "node \<Rightarrow> string" where
  "node_type Null = []"
| "node_type (Placeholder i) = ''Placeholder''"
| "node_type (InsertNode i f) = ''InsertNode''"
| "node_type (TaskNode i t f) = ''TaskNode''"
| "node_type (InputNode i t f) = ''InputNode''"
| "node_type (OutputNode i t f) = ''OutputNode''"
| "node_type (BranchNode i t cw tc fc f) = ''BranchNode''"
| "node_type (CaseNode i t cw don dn cs f) = ''CaseNode''"
| "node_type (InsertCase i t f) = ''InsertCase''"
| "node_type (HeadLoopNode i t ch f) = ''HeadLoopNode''"
| "node_type (CountLoopNode i t ch f) = ''CountLoopNode''"
| "node_type (FootLoopNode i t ch f) = ''FootLoopNode''"
| "node_type (FunctionNode i t ps ch f) = ''FunctionNode''"
| "node_type (TryCatchNode i t tc cc f) = ''TryCatchNode''"

fun followElement :: "node \<Rightarrow> node" where
  "followElement Null = Null"
| "followElement (Placeholder i) = Null"
| "followElement (InsertNode i f) = f"
| "followElement (TaskNode i t f) = f"
| "followElement (InputNode i t f) = f"
| "followElement (OutputNode i t f) = f"
| "followElement (BranchNode i t cw tc fc f) = f"
| "followElement (CaseNode i t cw don dn cs f) = f"
| "followElement (InsertCase i t f) = f"
| "followElement (HeadLoopNode i t ch f) = f"
| "followElement (CountLoopNode i t ch f) = f"
| "followElement (FootLoopNode i t ch f) = f"
| "followElement (FunctionNode i t ps ch f) = f"
| "followElement (TryCatchNode i t tc cc f) = f"

section \<open>Structural editor (tree manipulation helpers)\<close>

text \<open>
  The helpers address a position by the object that holds it, a property name and, for
  \<open>cases\<close>, an index. A reference into the freshly cloned tree is modelled by the path
  of such steps from the root; the clone shares nothing, so an assignment through the
  reference is the functional update at that path.
\<close>

datatype key = FollowElement | TrueChild | FalseChild | Child | TryChild | CatchChild
  | Cases nat | DefaultNode

fun orElse :: "'a option \<Rightarrow> 'a option \<Rightarrow> 'a option" where
  "orElse (Some x) y = Some x"
| "orElse None y = y"

fun firstSome :: "'a option list \<Rightarrow> 'a option" where
  "firstSome [] = None"
| "firstSome (x # xs) = orElse x (firstSome xs)"

text \<open>\<open>findNode\<close>: the node itself, then the keys \<open>followElement, trueChild, falseChild,
  child, tryChild, catchChild\<close> in this order, then each entry of \<open>cases\<close>, then
  \<open>defaultNode\<close>; the first match wins.\<close>

fun findNode :: "node \<Rightarrow> ident \<Rightarrow> node option" where
  "findNode Null x = None"
| "findNode (Placeholder i) x = (if i = Some x then Some (Placeholder i) else None)"
| "findNode (InsertNode i f) x =
     (if i = Some x then Some (InsertNode i f) else findNode f x)"
| "findNode (TaskNode i t f) x =
     (if i = Some x then Some (TaskNode i t f) else findNode f x)"
| "findNode (InputNode i t f) x =
     (if i = Some x then Some (InputNode i t f) else findNode f x)"
| "findNode (OutputNode i t f) x =
     (if i = Some x then Some (OutputNode i t f) else findNode f x)"
| "findNode (BranchNode i t cw tc fc f) x =
     (if i = Some x then Some (BranchNode i t cw tc fc f)
      else orElse (findNode f x) (orElse (findNode tc x) (findNode fc x)))"
| "findNode (CaseNode i t cw don dn cs f) x =
     (if i = Some x then Some (CaseNode i t cw don dn cs f)
      else orElse (findNode f x)
            (orElse (firstSome (map (\<lambda>c. findNode c x) cs)) (findNode dn x)))"
| "findNode (InsertCase i t f) x =
     (if i = Some x then Some (InsertCase i t f) else findNode f x)"
| "findNode (HeadLoopNode i t ch f) x =
     (if i = Some x then Some (HeadLoopNode i t ch f)
      else orElse (findNode f x) (findNode ch x))"
| "findNode (CountLoopNode i t ch f) x =
     (if i = Some x then Some (CountLoopNode i t ch f)
      else orElse (findNode f x) (findNode ch x))"
| "findNode (FootLoopNode i t ch f) x =
     (if i = Some x then Some (FootLoopNode i t ch f)
      else orElse (findNode f x) (findNode ch x))"
| "findNode (FunctionNode i t ps ch f) x =
     (if i = Some x then Some (FunctionNode i t ps ch f)
      else orElse (findNode f x) (findNode ch x))"
| "findNode (TryCatchNode i t tc cc f) x =
     (if i = Some x then Some (TryCatchNode i t tc cc f)
      else orElse (findNode f x) (orElse (findNode tc x) (findNode cc x)))"

text \<open>\<open>findParent\<close> returns \<open>{parent, key, index}\<close>; the model returns the path of keys
  from the root to the node, the empty path standing for \<open>parent = null\<close>.\<close>

definition via :: "key \<Rightarrow> key list option \<Rightarrow> key list option" where
  "via k r = map_option ((#) k) r"

fun findParent :: "node \<Rightarrow> ident \<Rightarrow> key list option"
  and findParentCases :: "nat \<Rightarrow> node list \<Rightarrow> ident \<Rightarrow> key list option" where
  "findParent Null x = None"
| "findParent (Placeholder i) x = (if i = Some x then Some [] else None)"
| "findParent (InsertNode i f) x =
     (if i = Some x then Some [] else via FollowElement (findParent f x))"
| "findParent (TaskNode i t f) x =
     (if i = Some x then Some [] else via FollowElement (findParent f x))"
| "findParent (InputNode i t f) x =
     (if i = Some x then Some [] else via FollowElement (findParent f x))"
| "findParent (OutputNode i t f) x =
     (if i = Some x then Some [] else via FollowElement (findParent f x))"
| "findParent (BranchNode i t cw tc fc f) x =
     (if i = Some x then Some []
      else orElse (via FollowElement (findParent f x))
            (orElse (via TrueChild (findParent tc x)) (via FalseChild (findParent fc x))))"
| "findParent (CaseNode i t cw don dn cs f) x =
     (if i = Some x then Some []
      else orElse (via FollowElement (findParent f x))
            (orElse (findParentCases 0 cs x) (via DefaultNode (findParent dn x))))"
| "findParent (InsertCase i t f) x =
     (if i = Some x then Some [] else via FollowElement (findParent f x))"
| "findParent (HeadLoopNode i t ch f) x =
     (if i = Some x then Some []
      else orElse (via FollowElement (findParent f x)) (via Child (findParent ch x)))"
| "findParent (CountLoopNode i t ch f) x =
     (if i = Some x then Some []
      else orElse (via FollowElement (findParent f x)) (via Child (findParent ch x)))"
| "findParent (FootLoopNode i t ch f) x =
     (if i = Some x then Some []
      else orElse (via FollowElement (findParent f x)) (via Child (findParent ch x)))"
| "findParent (FunctionNode i t ps ch f) x =
     (if i = Some x then Some []
      else orElse (via FollowElement (findParent f x)) (via Child (findParent ch x)))"
| "findParent (TryCatchNode i t tc cc f) x =
     (if i = Some x then Some []
      else orElse (via FollowElement (findParent f x))
            (orElse (via TryChild (findParent tc x)) (via CatchChild (findParent cc x))))"
| "findParentCases k [] x = None"
| "findParentCases k (c # cs) x =
     orElse (via (Cases k) (findParent c x)) (findParentCases (Suc k) cs x)"

text \<open>Reading and assigning \<open>parent[key]\<close> (\<open>parent[key][index]\<close> for \<open>cases\<close>).\<close>

fun getSlot :: "key \<Rightarrow> node \<Rightarrow> node" where
  "getSlot FollowElement n = followElement n"
| "getSlot TrueChild (BranchNode i t cw tc fc f) = tc"
| "getSlot FalseChild (BranchNode i t cw tc fc f) = fc"
| "getSlot Child (HeadLoopNode i t ch f) = ch"
| "getSlot Child (CountLoopNode i t ch f) = ch"
| "getSlot Child (FootLoopNode i t ch f) = ch"
| "getSlot Child (FunctionNode i t ps ch f) = ch"
| "getSlot TryChild (TryCatchNode i t tc cc f) = tc"
| "getSlot CatchChild (TryCatchNode i t tc cc f) = cc"
| "getSlot (Cases k) (CaseNode i t cw don dn cs f) = (if k < length cs then cs ! k else Null)"
| "getSlot DefaultNode (CaseNode i t cw don dn cs f) = dn"
| "getSlot k n = Null"

fun setFollow :: "node \<Rightarrow> node \<Rightarrow> node" where
  "setFollow (InsertNode i f) v = InsertNode i v"
| "setFollow (TaskNode i t f) v = TaskNode i t v"
| "setFollow (InputNode i t f) v = InputNode i t v"
| "setFollow (OutputNode i t f) v = OutputNode i t v"
| "setFollow (BranchNode i t cw tc fc f) v = BranchNode i t cw tc fc v"
| "setFollow (CaseNode i t cw don dn cs f) v = CaseNode i t cw don dn cs v"
| "setFollow (InsertCase i t f) v = InsertCase i t v"
| "setFollow (HeadLoopNode i t ch f) v = HeadLoopNode i t ch v"
| "setFollow (CountLoopNode i t ch f) v = CountLoopNode i t ch v"
| "setFollow (FootLoopNode i t ch f) v = FootLoopNode i t ch v"
| "setFollow (FunctionNode i t ps ch f) v = FunctionNode i t ps ch v"
| "setFollow (TryCatchNode i t tc cc f) v = TryCatchNode i t tc cc v"
| "setFollow n v = n"

fun setSlot :: "key \<Rightarrow> node \<Rightarrow> node \<Rightarrow> node" where
  "setSlot FollowElement v n = setFollow n v"
| "setSlot TrueChild v (BranchNode i t cw tc fc f) = BranchNode i t cw v fc f"
| "setSlot FalseChild v (BranchNode i t cw tc fc f) = BranchNode i t cw tc v f"
| "setSlot Child v (HeadLoopNode i t ch f) = HeadLoopNode i t v f"
| "setSlot Child v (CountLoopNode i t ch f) = CountLoopNode i t v f"
| "setSlot Child v (FootLoopNode i t ch f) = FootLoopNode i t v f"
| "setSlot Child v (FunctionNode i t ps ch f) = FunctionNode i t ps v f"
| "setSlot TryChild v (TryCatchNode i t tc cc f) = TryCatchNode i t v cc f"
| "setSlot CatchChild v (TryCatchNode i t tc cc f) = TryCatchNode i t tc v f"
| "setSlot (Cases k) v (CaseNode i t cw don dn cs f) = CaseNode i t cw don dn (cs[k := v]) f"
| "setSlot DefaultNode v (CaseNode i t cw don dn cs f) = CaseNode i t cw don v cs f"
| "setSlot k v n = n"

fun getAt :: "key list \<Rightarrow> node \<Rightarrow> node" where
  "getAt [] n = n"
| "getAt (k # ks) n = getAt ks (getSlot k n)"

fun setAt :: "key list \<Rightarrow> node \<Rightarrow> node \<Rightarrow> node" where
  "setAt [] v n = v"
| "setAt (k # ks) v n = setSlot k (setAt ks v (getSlot k n)) n"


subsection \<open>Identifiers and clones\<close>

fun digit36 :: "nat \<Rightarrow> char" where
  "digit36 d = ''0123456789abcdefghijklmnopqrstuvwxyz'' ! (d mod 36)"

fun toStringRadix :: "nat \<Rightarrow> nat \<Rightarrow> string" where
  "toStringRadix r n =
     (if r < 2 \<or> n < r then [digit36 n] else toStringRadix r (n div r) @ [digit36 (n mod r)])"

text \<open>\<open>genId\<close> reads the clock and increments the module counter. \<open>now c\<close> is the value
  \<open>Date.now()\<close> returns to the call made while the counter is \<open>c\<close>.\<close>

definition genId :: "(nat \<Rightarrow> nat) \<Rightarrow> nat \<Rightarrow> ident \<times> nat" where
  "genId now c =
     (''__ed_'' @ toStringRadix 36 (now c) @ ''_'' @ toStringRadix 10 (Suc c), Suc c)"

text \<open>An object reference handed back to the caller is either the caller's own input
  object or an object allocated during the call. \<open>cloneTree\<close> is
  \<open>JSON.parse(JSON.stringify(node))\<close> (\<open>null\<close> for a missing tree): a new object graph.
  The round trip through JSON gives back every string, boolean, array, \<open>null\<close> and
  finite number as it was, and a field that is \<open>undefined\<close> as a missing field. It
  turns the numbers that JSON cannot write, \<open>Infinity\<close>, \<open>-Infinity\<close> and \<open>NaN\<close>, into
  \<open>null\<close>. The numbers of a \<open>node\<close> are real numbers, that is, finite: on the trees of
  this model the clone has the fields of its input, and what \<open>cloneTree\<close> does to a tree
  with a non-finite entry in \<open>columnWidths\<close> is outside the model.\<close>

datatype origin = InputObject | NewObject

datatype js_error = TypeError | UnsupportedLanguage string

fun cloneTree :: "node \<Rightarrow> origin \<times> node" where
  "cloneTree Null = (InputObject, Null)"
| "cloneTree n = (NewObject, n)"

definition emptyInsert :: "(nat \<Rightarrow> nat) \<Rightarrow> nat \<Rightarrow> node \<times> nat" where
  "emptyInsert now c = (InsertNode (Some (fst (genId now c))) (Placeholder None), Suc c)"

text \<open>\<open>createNode\<close>: \<open>id\<close> takes the first identifier, the unused template \<open>insert\<close> the
  second, the children the following ones in the order of the object literal.\<close>

definition createNode :: "(nat \<Rightarrow> nat) \<Rightarrow> nat \<Rightarrow> string \<Rightarrow> node \<times> nat" where
  "createNode now c ty =
     (let (i, c1) = genId now c; (insert, c2) = emptyInsert now c1 in
      if ty = ''TaskNode'' then (TaskNode (Some i) ''Anweisung'' Null, c2)
      else if ty = ''InputNode'' then (InputNode (Some i) ''Eingabe'' Null, c2)
      else if ty = ''OutputNode'' then (OutputNode (Some i) ''Ausgabe'' Null, c2)
      else if ty = ''BranchNode'' then
        (let (a, c3) = emptyInsert now c2; (b, c4) = emptyInsert now c3
         in (BranchNode (Some i) ''Bedingung'' None a b Null, c4))
      else if ty = ''CaseNode'' then
        (let (d, c3) = genId now c2; (db, c4) = emptyInsert now c3;
             (k1, c5) = genId now c4; (b1, c6) = emptyInsert now c5;
             (k2, c7) = genId now c6; (b2, c8) = emptyInsert now c7
         in (CaseNode (Some i) ''Variable'' None True (InsertCase (Some d) ''Sonst'' db)
               [InsertCase (Some k1) ''Fall 1'' b1, InsertCase (Some k2) ''Fall 2'' b2] Null, c8))
      else if ty = ''HeadLoopNode'' then
        (let (a, c3) = emptyInsert now c2 in (HeadLoopNode (Some i) ''Bedingung'' a Null, c3))
      else if ty = ''CountLoopNode'' then
        (let (a, c3) = emptyInsert now c2 in (CountLoopNode (Some i) ''i = 1 bis 10'' a Null, c3))
      else if ty = ''FootLoopNode'' then
        (let (a, c3) = emptyInsert now c2 in (FootLoopNode (Some i) ''Bedingung'' a Null, c3))
      else if ty = ''FunctionNode'' then
        (let (a, c3) = emptyInsert now c2
         in (FunctionNode (Some i) ''funktion'' [Param ''0'' ''param''] a Null, c3))
      else if ty = ''TryCatchNode'' then
        (let (a, c3) = emptyInsert now c2; (b, c4) = emptyInsert now c3
         in (TryCatchNode (Some i) ''Exception e'' a b Null, c4))
      else (TaskNode (Some i) ty Null, c2))"

subsection \<open>insertAt, removeNode, editText, moveNode\<close>

text \<open>Every operation returns the reference it hands back (its origin and the tree value
  behind it) and the new counter, or the error it throws.\<close>

type_synonym edit_result = "js_error + (origin \<times> node \<times> nat)"

text \<open>\<open>a || { type: "Placeholder" }\<close>\<close>

definition orPlaceholder :: "node \<Rightarrow> node" where
  "orPlaceholder n = (if n = Null then Placeholder None else n)"

definition insertAt :: "(nat \<Rightarrow> nat) \<Rightarrow> nat \<Rightarrow> node \<Rightarrow> ident \<Rightarrow> string \<Rightarrow> edit_result" where
  "insertAt now c tree targetId nodeType =
     (let (orig, root) = cloneTree tree in
      case findNode root targetId of
        None \<Rightarrow> Inr (orig, root, c)
      | Some target \<Rightarrow>
          (let (newNode, c1) = createNode now c nodeType in
           case target of
             InsertNode ti tf \<Rightarrow>
               (case findParent root targetId of
                  None \<Rightarrow> Inr (orig, root, c1)
                | Some p \<Rightarrow> Inr (orig, setAt p (InsertNode ti (setFollow newNode tf)) root, c1))
           | Placeholder ti \<Rightarrow>
               (case findParent root targetId of
                  None \<Rightarrow> Inr (orig, root, c1)
                | Some p \<Rightarrow>
                    (let (i1, c2) = genId now c1; (i2, c3) = genId now c2;
                         insert = InsertNode (Some i1)
                           (setFollow newNode (InsertNode (Some i2) (Placeholder None)))
                     in if p = [] then Inl TypeError else Inr (orig, setAt p insert root, c3)))
           | _ \<Rightarrow> Inr (orig, root, c1)))"

definition removeNode :: "nat \<Rightarrow> node \<Rightarrow> ident \<Rightarrow> edit_result" where
  "removeNode c tree nodeId =
     (let (orig, root) = cloneTree tree in
      case findParent root nodeId of
        None \<Rightarrow> Inr (orig, root, c)
      | Some p \<Rightarrow>
          if p = [] then Inl TypeError
          else (let n = getAt p root in
                if n = Null then Inr (orig, root, c)
                else Inr (orig, setAt p (orPlaceholder (followElement n)) root, c)))"

text \<open>\<open>node.text = newText\<close>. On a marker (\<open>InsertNode\<close>, \<open>Placeholder\<close>) the assignment
  adds a property that no traversal reads; markers have no text field here and stay as
  they are.\<close>

fun setText :: "node \<Rightarrow> string \<Rightarrow> node" where
  "setText (TaskNode i t f) s = TaskNode i s f"
| "setText (InputNode i t f) s = InputNode i s f"
| "setText (OutputNode i t f) s = OutputNode i s f"
| "setText (BranchNode i t cw tc fc f) s = BranchNode i s cw tc fc f"
| "setText (CaseNode i t cw don dn cs f) s = CaseNode i s cw don dn cs f"
| "setText (InsertCase i t f) s = InsertCase i s f"
| "setText (HeadLoopNode i t ch f) s = HeadLoopNode i s ch f"
| "setText (CountLoopNode i t ch f) s = CountLoopNode i s ch f"
| "setText (FootLoopNode i t ch f) s = FootLoopNode i s ch f"
| "setText (FunctionNode i t ps ch f) s = FunctionNode i s ps ch f"
| "setText (TryCatchNode i t tc cc f) s = TryCatchNode i s tc cc f"
| "setText n s = n"

definition editText :: "nat \<Rightarrow> node \<Rightarrow> ident \<Rightarrow> string \<Rightarrow> edit_result" where
  "editText c tree nodeId newText =
     (let (orig, root) = cloneTree tree in
      case findNode root nodeId of
        None \<Rightarrow> Inr (orig, root, c)
      | Some n \<Rightarrow>
          (case findParent root nodeId of
             None \<Rightarrow> Inr (orig, root, c)
           | Some p \<Rightarrow> Inr (orig, setAt p (setText n newText) root, c)))"

text \<open>\<open>moveNode\<close>: detach the source (its slot takes its \<open>followElement\<close>), look the
  target up in the tree without the source, and splice the source in only when the
  target is an \<open>InsertNode\<close>.\<close>

definition moveNode :: "nat \<Rightarrow> node \<Rightarrow> ident \<Rightarrow> ident \<Rightarrow> edit_result" where
  "moveNode c tree nodeId targetId =
     (if nodeId = targetId then Inr (InputObject, tree, c)
      else
       (let (orig, root) = cloneTree tree in
        case findParent root nodeId of
          None \<Rightarrow> Inr (orig, root, c)
        | Some p \<Rightarrow>
            if p = [] then Inl TypeError
            else (let srcNode = getAt p root in
              if srcNode = Null then Inr (orig, root, c)
              else (let root1 = setAt p (orPlaceholder (followElement srcNode)) root in
                case findNode root1 targetId of
                  None \<Rightarrow> Inr (orig, root1, c)
                | Some target \<Rightarrow>
                    (case target of
                       InsertNode ti tf \<Rightarrow>
                         (case findParent root1 targetId of
                            None \<Rightarrow> Inr (orig, root1, c)
                          | Some q \<Rightarrow>
                              Inr (orig, setAt q (InsertNode ti (setFollow srcNode tf)) root1, c))
                     | _ \<Rightarrow> Inr (orig, root1, c))))))"

text \<open>The identifiers of a tree, each with the type of the node that carries it.\<close>

fun taggedIds :: "node \<Rightarrow> (ident \<times> string) multiset" where
  "taggedIds Null = {#}"
| "taggedIds (Placeholder i) = (case i of None \<Rightarrow> {#} | Some x \<Rightarrow> {#(x, ''Placeholder'')#})"
| "taggedIds (InsertNode i f) =
     (case i of None \<Rightarrow> {#} | Some x \<Rightarrow> {#(x, ''InsertNode'')#}) + taggedIds f"
| "taggedIds (TaskNode i t f) =
     (case i of None \<Rightarrow> {#} | Some x \<Rightarrow> {#(x, ''TaskNode'')#}) + taggedIds f"
| "taggedIds (InputNode i t f) =
     (case i of None \<Rightarrow> {#} | Some x \<Rightarrow> {#(x, ''InputNode'')#}) + taggedIds f"
| "taggedIds (OutputNode i t f) =
     (case i of None \<Rightarrow> {#} | Some x \<Rightarrow> {#(x, ''OutputNode'')#}) + taggedIds f"
| "taggedIds (BranchNode i t cw tc fc f) =
     (case i of None \<Rightarrow> {#} | Some x \<Rightarrow> {#(x, ''BranchNode'')#})
       + taggedIds f + taggedIds tc + taggedIds fc"
| "taggedIds (CaseNode i t cw don dn cs f) =
     (case i of None \<Rightarrow> {#} | Some x \<Rightarrow> {#(x, ''CaseNode'')#})
       + taggedIds f + sum_list (map taggedIds cs) + taggedIds dn"
| "taggedIds (InsertCase i t f) =
     (case i of None \<Rightarrow> {#} | Some x \<Rightarrow> {#(x, ''InsertCase'')#}) + taggedIds f"
| "taggedIds (HeadLoopNode i t ch f) =
     (case i of None \<Rightarrow> {#} | Some x \<Rightarrow> {#(x, ''HeadLoopNode'')#})
       + taggedIds f + taggedIds ch"
| "taggedIds (CountLoopNode i t ch f) =
     (case i of None \<Rightarrow> {#} | Some x \<Rightarrow> {#(x, ''CountLoopNode'')#})
       + taggedIds f + taggedIds ch"
| "taggedIds (FootLoopNode i t ch f) =
     (case i of None \<Rightarrow> {#} | Some x \<Rightarrow> {#(x, ''FootLoopNode'')#})
       + taggedIds f + taggedIds ch"
| "taggedIds (FunctionNode i t ps ch f) =
     (case i of None \<Rightarrow> {#} | Some x \<Rightarrow> {#(x, ''FunctionNode'')#})
       + taggedIds f + taggedIds ch"
| "taggedIds (TryCatchNode i t tc cc f) =
     (case i of None \<Rightarrow> {#} | Some x \<Rightarrow> {#(x, ''TryCatchNode'')#})
       + taggedIds f + taggedIds tc + taggedIds cc"

definition nodeIds :: "node \<Rightarrow> ident multiset" where
  "nodeIds n = image_mset fst (taggedIds n)"

text \<open>Identifiers are unique within a tree.\<close>

definition uniqueIds :: "node \<Rightarrow> bool" where
  "uniqueIds n = (\<forall>x. count (nodeIds n) x \<le> 1)"


section \<open>Code generator\<close>

definition nl :: char where "nl = CHR 0x0A"
definition dq :: char where "dq = CHR 0x22"

text \<open>One entry of \<open>TRANSLATIONS\<close>: the templates of every node type, the brackets and the
  flag \<open>pseudoSwitch\<close>.\<close>

record translation =
  InputNode_pre :: string
  InputNode_post :: string
  OutputNode_pre :: string
  OutputNode_post :: string
  TaskNode_pre :: string
  TaskNode_post :: string
  BranchNode_pre :: string
  BranchNode_post :: string
  BranchNode_between :: string
  TryCatchNode_pre :: string
  TryCatchNode_between :: string
  TryCatchNode_post :: string
  CountLoopNode_pre :: string
  CountLoopNode_post :: string
  HeadLoopNode_pre :: string
  HeadLoopNode_post :: string
  FootLoopNode_prepre :: string
  FootLoopNode_pre :: string
  FootLoopNode_post :: string
  FunctionNode_pre :: string
  FunctionNode_between :: string
  FunctionNode_post :: string
  CaseNode_pre :: string
  CaseNode_post :: string
  InsertCase_preNormal :: string
  InsertCase_preDefault :: string
  InsertCase_post :: string
  InsertCase_postpost :: string
  leftBracket :: string
  rightBracket :: string
  pseudoSwitch :: bool

definition python :: translation where
  "python = \<lparr>
     InputNode_pre = [], InputNode_post = '' = input('' @ [dq] @ ''Eingabe'' @ [dq] @ '')'' @ [nl],
     OutputNode_pre = ''print('', OutputNode_post = '')'' @ [nl],
     TaskNode_pre = [], TaskNode_post = [nl],
     BranchNode_pre = ''if '', BranchNode_post = '':'' @ [nl], BranchNode_between = ''else:'' @ [nl],
     TryCatchNode_pre = ''try:'' @ [nl], TryCatchNode_between = ''except '',
     TryCatchNode_post = '':'' @ [nl],
     CountLoopNode_pre = ''for '', CountLoopNode_post = '':'' @ [nl],
     HeadLoopNode_pre = ''while '', HeadLoopNode_post = '':'' @ [nl],
     FootLoopNode_prepre = ''while True:'' @ [nl], FootLoopNode_pre = ''    if not '',
     FootLoopNode_post = '':'' @ [nl] @ ''        break'' @ [nl],
     FunctionNode_pre = ''def '', FunctionNode_between = ''('', FunctionNode_post = ''):'' @ [nl],
     CaseNode_pre = ''if '', CaseNode_post = '':'' @ [nl],
     InsertCase_preNormal = ''elif '', InsertCase_preDefault = ''else'',
     InsertCase_post = '':'' @ [nl], InsertCase_postpost = [nl],
     leftBracket = [], rightBracket = [], pseudoSwitch = True \<rparr>"

definition java :: translation where
  "java = \<lparr>
     InputNode_pre = [], InputNode_post = '' = System.console().readLine();'' @ [nl],
     OutputNode_pre = ''System.out.println('', OutputNode_post = '');'' @ [nl],
     TaskNode_pre = [], TaskNode_post = '';'' @ [nl],
     BranchNode_pre = ''if ('', BranchNode_post = '')'', BranchNode_between = ''} else {'' @ [nl],
     TryCatchNode_pre = ''try'', TryCatchNode_between = ''catch ('', TryCatchNode_post = '')'',
     CountLoopNode_pre = ''for ('', CountLoopNode_post = '')'',
     HeadLoopNode_pre = ''while ('', HeadLoopNode_post = '')'',
     FootLoopNode_prepre = ''do'', FootLoopNode_pre = ''while ('',
     FootLoopNode_post = '');'' @ [nl],
     FunctionNode_pre = ''public void '', FunctionNode_between = ''('', FunctionNode_post = '')'',
     CaseNode_pre = ''switch ('', CaseNode_post = '')'',
     InsertCase_preNormal = ''case '', InsertCase_preDefault = ''default'',
     InsertCase_post = '':'' @ [nl], InsertCase_postpost = ''break;'' @ [nl],
     leftBracket = ''{'', rightBracket = ''}'', pseudoSwitch = False \<rparr>"

definition javascript :: translation where
  "javascript = \<lparr>
     InputNode_pre = [], InputNode_post = '' = prompt('' @ [dq] @ ''Eingabe'' @ [dq] @ '');'' @ [nl],
     OutputNode_pre = ''console.log('', OutputNode_post = '');'' @ [nl],
     TaskNode_pre = [], TaskNode_post = '';'' @ [nl],
     BranchNode_pre = ''if ('', BranchNode_post = '')'', BranchNode_between = ''} else {'' @ [nl],
     TryCatchNode_pre = ''try'', TryCatchNode_between = ''catch ('', TryCatchNode_post = '')'',
     CountLoopNode_pre = ''for ('', CountLoopNode_post = '')'',
     HeadLoopNode_pre = ''while ('', HeadLoopNode_post = '')'',
     FootLoopNode_prepre = ''do'', FootLoopNode_pre = ''while ('',
     FootLoopNode_post = '');'' @ [nl],
     FunctionNode_pre = ''function '', FunctionNode_between = ''('', FunctionNode_post = '')'',
     CaseNode_pre = ''switch ('', CaseNode_post = '')'',
     InsertCase_preNormal = ''case '', InsertCase_preDefault = ''default'',
     InsertCase_post = '':'' @ [nl], InsertCase_postpost = ''break;'' @ [nl],
     leftBracket = ''{'', rightBracket = ''}'', pseudoSwitch = False \<rparr>"

text \<open>
  \<open>TRANSLATIONS[key]\<close> is a property read on an ordinary object literal. It finds the
  three own properties and, for any other key, whatever \<open>Object.prototype\<close> has under
  that name. The key is lower case, and the only members of \<open>Object.prototype\<close> with a
  lower-case name are \<open>constructor\<close> and \<open>__proto__\<close>; both are objects (truthy) without
  any template property.
\<close>

datatype table = Own translation | Inherited

definition lookupTranslations :: "string \<Rightarrow> table option" where
  "lookupTranslations k =
     (if k = ''python'' then Some (Own python)
      else if k = ''java'' then Some (Own java)
      else if k = ''javascript'' then Some (Own javascript)
      else if k = ''constructor'' \<or> k = ''__proto__'' then Some Inherited
      else None)"

definition toLowerChar :: "char \<Rightarrow> char" where
  "toLowerChar c =
     (let n = (of_char c :: nat)
      in if (65 \<le> n \<and> n \<le> 90) \<or> (192 \<le> n \<and> n \<le> 222 \<and> n \<noteq> 215)
         then char_of (n + 32) else c)"

definition toLowerCase :: "string \<Rightarrow> string" where
  "toLowerCase s = map toLowerChar s"

definition indent :: "nat \<Rightarrow> string" where
  "indent level = concat (replicate level ''    '')"

text \<open>Lines produced so far, or the error thrown; \<open>catE\<close> runs two steps in order.\<close>

fun catE :: "js_error + string list \<Rightarrow> js_error + string list \<Rightarrow> js_error + string list" where
  "catE (Inl e) r = Inl e"
| "catE (Inr a) (Inl e) = Inl e"
| "catE (Inr a) (Inr b) = Inr (a @ b)"

definition bracketOpen :: "translation \<Rightarrow> string" where
  "bracketOpen t = (if leftBracket t \<noteq> [] then '' '' @ leftBracket t @ [nl] else [])"

definition bracketClose :: "translation \<Rightarrow> nat \<Rightarrow> string list" where
  "bracketClose t level = (if rightBracket t \<noteq> [] then [indent level @ rightBracket t @ [nl]] else [])"

fun joinWith :: "string \<Rightarrow> string list \<Rightarrow> string" where
  "joinWith sep [] = []"
| "joinWith sep [x] = x"
| "joinWith sep (x # y # ys) = x @ sep @ joinWith sep (y # ys)"

text \<open>
  \<open>transform\<close>. With an inherited table every template read \<open>t.TaskNode.pre\<close>,
  \<open>t.BranchNode.pre\<close>, ... is a property read on \<open>undefined\<close> and throws a TypeError;
  so does \<open>c.type\<close> on a \<open>null\<close> entry of \<open>cases\<close>. The two loops over \<open>cases\<close> are
  \<open>pseudoCases\<close> (with the flag \<open>first\<close>) and \<open>switchCases\<close>.
\<close>

lemma size_followElement: "size (followElement n) \<le> a + size n + b"
  by (cases n) auto

function (sequential) transform :: "node \<Rightarrow> nat \<Rightarrow> table \<Rightarrow> string \<Rightarrow> js_error + string list"
  and pseudoCases :: "node list \<Rightarrow> bool \<Rightarrow> string \<Rightarrow> nat \<Rightarrow> translation \<Rightarrow> string \<Rightarrow> js_error + string list"
  and switchCases :: "node list \<Rightarrow> nat \<Rightarrow> translation \<Rightarrow> string \<Rightarrow> js_error + string list"
where
  "transform Null level tb lang = Inr []"
| "transform (InsertNode i f) level tb lang = transform f level tb lang"
| "transform (Placeholder i) level tb lang = Inr []"
| "transform (InsertCase i text f) level tb lang = transform f level tb lang"
| "transform (TaskNode i text f) level tb lang =
     (case tb of Inherited \<Rightarrow> Inl TypeError
      | Own t \<Rightarrow> catE (Inr [indent level @ TaskNode_pre t @ text @ TaskNode_post t])
                   (transform f level tb lang))"
| "transform (InputNode i text f) level tb lang =
     (case tb of Inherited \<Rightarrow> Inl TypeError
      | Own t \<Rightarrow> catE (Inr [indent level @ InputNode_pre t @ text @ InputNode_post t])
                   (transform f level tb lang))"
| "transform (OutputNode i text f) level tb lang =
     (case tb of Inherited \<Rightarrow> Inl TypeError
      | Own t \<Rightarrow> catE (Inr [indent level @ OutputNode_pre t @ text @ OutputNode_post t])
                   (transform f level tb lang))"
| "transform (BranchNode i text cw tc fc f) level tb lang =
     (case tb of Inherited \<Rightarrow> Inl TypeError
      | Own t \<Rightarrow>
          catE (Inr [indent level @ BranchNode_pre t @ text @ BranchNode_post t @ bracketOpen t])
         (catE (transform tc (level + 1) tb lang)
         (catE (Inr [indent level @ BranchNode_between t])
         (catE (transform fc (level + 1) tb lang)
         (catE (Inr (bracketClose t level))
               (transform f level tb lang))))))"
| "transform (HeadLoopNode i text ch f) level tb lang =
     (case tb of Inherited \<Rightarrow> Inl TypeError
      | Own t \<Rightarrow>
          catE (Inr [indent level @ HeadLoopNode_pre t @ text @ HeadLoopNode_post t @ bracketOpen t])
         (catE (transform ch (level + 1) tb lang)
         (catE (Inr (bracketClose t level))
               (transform f level tb lang))))"
| "transform (CountLoopNode i text ch f) level tb lang =
     (case tb of Inherited \<Rightarrow> Inl TypeError
      | Own t \<Rightarrow>
          catE (Inr [indent level @ CountLoopNode_pre t @ text @ CountLoopNode_post t @ bracketOpen t])
         (catE (transform ch (level + 1) tb lang)
         (catE (Inr (bracketClose t level))
               (transform f level tb lang))))"
| "transform (FootLoopNode i text ch f) level tb lang =
     (case tb of Inherited \<Rightarrow> Inl TypeError
      | Own t \<Rightarrow>
          catE (Inr [indent level @ FootLoopNode_prepre t @ bracketOpen t])
         (catE (transform ch (level + 1) tb lang)
         (catE (Inr (if pseudoSwitch t
                     then [indent level @ FootLoopNode_pre t @ text @ FootLoopNode_post t]
                     else (if rightBracket t \<noteq> [] then [indent level @ rightBracket t @ '' ''] else [])
                          @ [FootLoopNode_pre t @ text @ FootLoopNode_post t]))
               (transform f level tb lang))))"
| "transform (FunctionNode i text ps ch f) level tb lang =
     (case tb of Inherited \<Rightarrow> Inl TypeError
      | Own t \<Rightarrow>
          catE (Inr [indent level @ FunctionNode_pre t @ text @ FunctionNode_between t
                      @ joinWith '', '' (map parName ps) @ FunctionNode_post t @ bracketOpen t])
         (catE (transform ch (level + 1) tb lang)
         (catE (Inr (bracketClose t level))
               (transform f level tb lang))))"
| "transform (TryCatchNode i text tc cc f) level tb lang =
     (case tb of Inherited \<Rightarrow> Inl TypeError
      | Own t \<Rightarrow>
          catE (Inr [indent level @ TryCatchNode_pre t @ bracketOpen t])
         (catE (transform tc (level + 1) tb lang)
         (catE (Inr [indent level @ (if rightBracket t \<noteq> [] then rightBracket t @ '' '' else [])
                      @ TryCatchNode_between t @ text @ TryCatchNode_post t @ bracketOpen t])
         (catE (transform cc (level + 1) tb lang)
         (catE (Inr (bracketClose t level))
               (transform f level tb lang))))))"
| "transform (CaseNode i text cw don dn cs f) level tb lang =
     (case tb of Inherited \<Rightarrow> Inl TypeError
      | Own t \<Rightarrow>
          catE
           (if pseudoSwitch t then
              catE (pseudoCases cs True text level t lang)
                (if don \<and> dn \<noteq> Null then
                   catE (Inr [indent level @ InsertCase_preDefault t @ InsertCase_post t])
                        (transform (followElement dn) (level + 1) tb lang)
                 else Inr [])
            else
              catE (Inr [indent level @ CaseNode_pre t @ text @ CaseNode_post t @ bracketOpen t])
             (catE (switchCases cs level t lang)
             (catE (if don \<and> dn \<noteq> Null then
                      catE (Inr [indent (level + 1) @ InsertCase_preDefault t @ InsertCase_post t])
                     (catE (transform (followElement dn) (level + 2) tb lang)
                           (Inr (if lang = ''java'' then [indent (level + 2) @ InsertCase_postpost t] else [])))
                    else Inr [])
                   (Inr (bracketClose t level)))))
           (transform f level tb lang))"
| "pseudoCases [] first text level t lang = Inr []"
| "pseudoCases (c # cs) first text level t lang =
     (case c of
        Null \<Rightarrow> Inl TypeError
      | InsertCase ci ctext cf \<Rightarrow>
          catE (Inr [indent level @ (if first then ''if '' else InsertCase_preNormal t)
                      @ text @ '' == '' @ ctext @ InsertCase_post t])
         (catE (transform cf (level + 1) (Own t) lang)
               (pseudoCases cs False text level t lang))
      | _ \<Rightarrow> pseudoCases cs first text level t lang)"
| "switchCases [] level t lang = Inr []"
| "switchCases (c # cs) level t lang =
     (case c of
        Null \<Rightarrow> Inl TypeError
      | InsertCase ci ctext cf \<Rightarrow>
          catE (Inr [indent (level + 1) @ InsertCase_preNormal t @ ctext @ InsertCase_post t])
         (catE (transform cf (level + 2) (Own t) lang)
         (catE (Inr (if InsertCase_postpost t \<noteq> [] then [indent (level + 2) @ InsertCase_postpost t] else []))
               (switchCases cs level t lang)))
      | _ \<Rightarrow> switchCases cs level t lang)"
  by pat_completeness auto

termination
proof (relation "measure (\<lambda>x. case x of
          Inl (n, level, tb, lang) \<Rightarrow> size n
        | Inr (Inl (cs, first, text, level, t, lang)) \<Rightarrow> size_list size cs
        | Inr (Inr (cs, level, t, lang)) \<Rightarrow> size_list size cs)", goal_cases)
  case 1 show ?case by simp
qed (auto simp: less_Suc_eq_le size_followElement)

definition generateCode :: "node \<Rightarrow> string \<Rightarrow> js_error + string" where
  "generateCode tree lang =
     (case lookupTranslations (toLowerCase lang) of
        None \<Rightarrow> Inl (UnsupportedLanguage
                  (''Unsupported language: '' @ lang @ ''. Supported: python, java, javascript''))
      | Some tb \<Rightarrow>
          (case transform tree 0 tb (toLowerCase lang) of
             Inl e \<Rightarrow> Inl e
           | Inr lines \<Rightarrow> Inr (concat lines)))"

section \<open>Layout: measuring and rendering\<close>

text \<open>
  The renderer reads two things from its environment: the pixel width of a string at a
  font size (\<open>measureTextWidth\<close>, a canvas call) and the module variable
  \<open>_insertNodeHeight\<close> set through \<open>setInsertNodeHeight\<close>. Both are parameters here,
  packed in \<open>env\<close>.

  Lengths and coordinates are double-precision numbers in the program and real numbers
  here: sums, differences and products are exact, nothing is rounded, and there is no
  \<open>NaN\<close> and no infinity. A quotient whose divisor is 0 is 0 here, where the program
  gets \<open>NaN\<close> or an infinity; this concerns only the point where an inner divider of
  a case header starts, when the width, or the sum of the widths of the case columns,
  is 0.
\<close>

record env =
  measureText :: "string \<Rightarrow> real \<Rightarrow> real"
  insertNodeHeight :: real

definition DEFAULT_ROW_HEIGHT :: real where "DEFAULT_ROW_HEIGHT = 40"
definition LOOP_INDENT :: real where "LOOP_INDENT = 20"
definition PADDING_X :: real where "PADDING_X = 8"
definition PADDING_Y :: real where "PADDING_Y = 6"

text \<open>White space of \<open>\s\<close> and of \<open>trim\<close> among the code units below U+0100: tab, line
  feed, vertical tab, form feed, carriage return, space, no-break space.\<close>

definition is_space :: "char \<Rightarrow> bool" where
  "is_space c = (c \<in> set [CHR 0x09, CHR 0x0A, CHR 0x0B, CHR 0x0C, CHR 0x0D, CHR 0x20, CHR 0xA0])"

text \<open>\<open>str.split(sep)\<close> for a one-character separator.\<close>

fun splitChar :: "char \<Rightarrow> string \<Rightarrow> string \<Rightarrow> string list" where
  "splitChar sep [] cur = [cur]"
| "splitChar sep (c # cs) cur =
     (if c = sep then cur # splitChar sep cs [] else splitChar sep cs (cur @ [c]))"

text \<open>\<open>para.split(/\s+/)\<close>: the pieces between maximal runs of white space.\<close>

function splitWs :: "string \<Rightarrow> string \<Rightarrow> string list" where
  "splitWs [] cur = [cur]"
| "splitWs (c # cs) cur =
     (if is_space c then cur # splitWs (dropWhile is_space cs) [] else splitWs cs (cur @ [c]))"
  by pat_completeness auto

termination
  by (relation "measure (\<lambda>(s, cur). length s)")
     (auto simp: less_Suc_eq_le length_dropWhile_le)

text \<open>The loop over the words of one paragraph; \<open>current\<close> is the line being filled.
  With an empty \<open>current\<close> the candidate line \<open>test\<close> is the word itself and is always
  taken; otherwise \<open>test\<close> is \<open>current + " " + word\<close>.\<close>

fun wrapWords :: "env \<Rightarrow> real \<Rightarrow> real \<Rightarrow> string list \<Rightarrow> string \<Rightarrow> string list" where
  "wrapWords e maxWidth fontSize [] current = (if current \<noteq> [] then [current] else [])"
| "wrapWords e maxWidth fontSize (word # ws) [] = wrapWords e maxWidth fontSize ws word"
| "wrapWords e maxWidth fontSize (word # ws) (c # cs) =
     (if measureText e ((c # cs) @ '' '' @ word) fontSize > maxWidth
      then (c # cs) # wrapWords e maxWidth fontSize ws word
      else wrapWords e maxWidth fontSize ws ((c # cs) @ '' '' @ word))"

definition wrapText :: "env \<Rightarrow> string \<Rightarrow> real \<Rightarrow> real \<Rightarrow> string list" where
  "wrapText e str maxWidth fontSize =
     (if str = [] then [[]]
      else
       (let allLines = concat (map (\<lambda>para.
              if para = [] \<or> measureText e para fontSize \<le> maxWidth then [para]
              else wrapWords e maxWidth fontSize (splitWs para []) [])
              (splitChar (CHR 0x0A) str []))
        in if allLines \<noteq> [] then allLines else [[]]))"

definition wrappedTextHeight :: "env \<Rightarrow> string \<Rightarrow> real \<Rightarrow> real \<Rightarrow> real" where
  "wrappedTextHeight e str maxWidth fontSize =
     (let lineH = fontSize * 1.3
      in max DEFAULT_ROW_HEIGHT (real (length (wrapText e str maxWidth fontSize)) * lineH + PADDING_Y * 2))"

text \<open>\<open>columnWidths\<close>: the fractions are used only when their number is the number of
  columns; otherwise the columns are equally wide.\<close>

definition columnWidths :: "real \<Rightarrow> nat \<Rightarrow> real list option \<Rightarrow> real list" where
  "columnWidths totalWidth numCols fractions =
     (case fractions of
        Some fr \<Rightarrow> if length fr = numCols then map (\<lambda>f. totalWidth * f) fr
                   else replicate numCols (totalWidth / real numCols)
      | None \<Rightarrow> replicate numCols (totalWidth / real numCols))"

text \<open>The markers put before the text of an input and an output statement are the
  glyphs U+25B6 and U+25C0 followed by a space; the glyphs are written as their UTF-8
  bytes.\<close>

definition inputMarker :: string where
  "inputMarker = [CHR 0xE2, CHR 0x96, CHR 0xB6, CHR 0x20]"

definition outputMarker :: string where
  "outputMarker = [CHR 0xE2, CHR 0x97, CHR 0x80, CHR 0x20]"

definition functionHeader :: "string \<Rightarrow> param list \<Rightarrow> string" where
  "functionHeader text ps =
     text @ (if ps \<noteq> [] then ''('' @ joinWith '', '' (map parName ps) @ '')'' else ''()'') @ '' {''"

definition catchLabel :: "string \<Rightarrow> string" where
  "catchLabel text = ''Catch'' @ (if text \<noteq> [] then '' ('' @ text @ '')'' else [])"

text \<open>Named parts of the height formulas: the width left for text, the height of a text
  row, the slope and label rows of a branch header, the header heights, the body of a
  loop (at least half its header row) and the column widths of a case node.\<close>

definition textWidth :: "real \<Rightarrow> real" where
  "textWidth width = width - PADDING_X * 2"

definition rowHeight :: "env \<Rightarrow> string \<Rightarrow> real \<Rightarrow> real \<Rightarrow> real" where
  "rowHeight e text fontSize width = wrappedTextHeight e text (textWidth width) fontSize"

definition slopeHeight :: "real \<Rightarrow> real" where
  "slopeHeight fontSize = fontSize * 1.3 + PADDING_Y"

definition branchHeaderH :: "env \<Rightarrow> string \<Rightarrow> real \<Rightarrow> real \<Rightarrow> real" where
  "branchHeaderH e text fontSize width =
     rowHeight e text fontSize width + slopeHeight fontSize + slopeHeight fontSize"

definition caseHeaderH :: "env \<Rightarrow> string \<Rightarrow> real \<Rightarrow> real \<Rightarrow> real" where
  "caseHeaderH e text fontSize width = rowHeight e text fontSize width + slopeHeight fontSize"

definition bodyHeight :: "real \<Rightarrow> real \<Rightarrow> real" where
  "bodyHeight childH rowH = max childH (rowH * 0.5)"

definition numColumns :: "node list \<Rightarrow> bool \<Rightarrow> nat" where
  "numColumns cs don = length cs + (if don then 1 else 0)"

definition caseColW :: "real \<Rightarrow> node list \<Rightarrow> bool \<Rightarrow> real list option \<Rightarrow> real list" where
  "caseColW width cs don cw = columnWidths width (numColumns cs don) cw"

definition lastColW :: "real \<Rightarrow> node list \<Rightarrow> bool \<Rightarrow> real list option \<Rightarrow> real" where
  "lastColW width cs don cw = caseColW width cs don cw ! (numColumns cs don - 1)"

definition footHeight :: real where
  "footHeight = DEFAULT_ROW_HEIGHT * 0.6"

lemma size_in_cases: "c \<in> set cs \<Longrightarrow> size c < Suc (size_list size cs + a + b)"
  by (induction cs) auto

function measureHeight :: "env \<Rightarrow> node \<Rightarrow> real \<Rightarrow> real \<Rightarrow> real" where
  "measureHeight e Null fontSize width = 0"
| "measureHeight e (InsertNode i f) fontSize width =
     insertNodeHeight e + measureHeight e f fontSize width"
| "measureHeight e (Placeholder i) fontSize width = 0"
| "measureHeight e (TaskNode i text f) fontSize width =
     rowHeight e text fontSize width + measureHeight e f fontSize width"
| "measureHeight e (InputNode i text f) fontSize width =
     rowHeight e (inputMarker @ text) fontSize width + measureHeight e f fontSize width"
| "measureHeight e (OutputNode i text f) fontSize width =
     rowHeight e (outputMarker @ text) fontSize width + measureHeight e f fontSize width"
| "measureHeight e (InsertCase i text f) fontSize width =
     rowHeight e text fontSize width + measureHeight e f fontSize width"
| "measureHeight e (BranchNode i text cw tc fc f) fontSize width =
     branchHeaderH e text fontSize width
       + max (measureHeight e tc fontSize (columnWidths width 2 cw ! 0))
             (measureHeight e fc fontSize (columnWidths width 2 cw ! 1))
       + measureHeight e f fontSize width"
| "measureHeight e (CaseNode i text cw don dn cs f) fontSize width =
     caseHeaderH e text fontSize width
       + (let maxChildH = foldl max 0
                (map (\<lambda>(c, w). measureHeight e c fontSize w) (zip cs (caseColW width cs don cw)))
          in if don \<and> dn \<noteq> Null
             then max maxChildH (measureHeight e dn fontSize (lastColW width cs don cw))
             else maxChildH)
       + measureHeight e f fontSize width"
| "measureHeight e (HeadLoopNode i text ch f) fontSize width =
     rowHeight e text fontSize width
       + bodyHeight (measureHeight e ch fontSize (width - LOOP_INDENT)) (rowHeight e text fontSize width)
       + measureHeight e f fontSize width"
| "measureHeight e (CountLoopNode i text ch f) fontSize width =
     rowHeight e text fontSize width
       + bodyHeight (measureHeight e ch fontSize (width - LOOP_INDENT)) (rowHeight e text fontSize width)
       + measureHeight e f fontSize width"
| "measureHeight e (FootLoopNode i text ch f) fontSize width =
     bodyHeight (measureHeight e ch fontSize (width - LOOP_INDENT)) (rowHeight e text fontSize width)
       + rowHeight e text fontSize width
       + measureHeight e f fontSize width"
| "measureHeight e (FunctionNode i text ps ch f) fontSize width =
     rowHeight e (functionHeader text ps) fontSize width
       + bodyHeight (measureHeight e ch fontSize (width - LOOP_INDENT))
                    (rowHeight e (functionHeader text ps) fontSize width)
       + footHeight
       + measureHeight e f fontSize width"
| "measureHeight e (TryCatchNode i text tc cc f) fontSize width =
     rowHeight e ''Try'' fontSize width
       + bodyHeight (measureHeight e tc fontSize (width - LOOP_INDENT)) (rowHeight e ''Try'' fontSize width)
       + rowHeight e (catchLabel text) fontSize width
       + bodyHeight (measureHeight e cc fontSize (width - LOOP_INDENT))
                    (rowHeight e (catchLabel text) fontSize width)
       + measureHeight e f fontSize width"
  by pat_completeness auto

termination
  apply (relation "measure (\<lambda>(e, n, fs, w). size n)")
  apply simp_all
  apply (auto dest!: set_zip_leftD intro!: size_in_cases)
  done

subsection \<open>Rendering\<close>

text \<open>The SVG elements, each written as the arguments of the helper that makes it:
  \<open>bg(x, y, w, h, fill)\<close>, \<open>ln(x1, y1, x2, y2)\<close> and
  \<open>textEl(str, x, y, h, fontSize, maxWidth, anchor)\<close> (\<open>maxWidth\<close> may be \<open>null\<close>).\<close>

datatype element =
    Bg real real real real string
  | Ln real real real real
  | TextEl string real real real real "real option" string

definition colorStatement :: string where "colorStatement = ''rgb(253, 237, 206)''"
definition colorLoop :: string where "colorLoop = ''rgb(220, 239, 231)''"
definition colorBranch :: string where "colorBranch = ''rgb(250, 218, 209)''"
definition colorFunction :: string where "colorFunction = ''rgb(255, 255, 255)''"

text \<open>The optional parameter \<open>availH\<close> is \<open>None\<close> when omitted. The three ways it is passed
  on: \<open>availH ? availH - inh : undefined\<close> (an \<open>InsertNode\<close>),
  \<open>availH != null ? availH - h : undefined\<close>, and the stretched row height
  \<open>(availH != null && availH > naturalH) ? rowH + (availH - naturalH) : rowH\<close>.\<close>

definition insertAvail :: "real option \<Rightarrow> real \<Rightarrow> real option" where
  "insertAvail availH inh =
     (case availH of None \<Rightarrow> None | Some a \<Rightarrow> if a \<noteq> 0 then Some (a - inh) else None)"

definition remain :: "real option \<Rightarrow> real \<Rightarrow> real option" where
  "remain availH h = (case availH of None \<Rightarrow> None | Some a \<Rightarrow> Some (a - h))"

definition stretchRow :: "real option \<Rightarrow> real \<Rightarrow> real \<Rightarrow> real" where
  "stretchRow availH rowH naturalH =
     (case availH of None \<Rightarrow> rowH
      | Some a \<Rightarrow> if a > naturalH then rowH + (a - naturalH) else rowH)"

text \<open>\<open>(availH != null && availH > headerH + childH + followH)
  ? availH - headerH - childH - followH : 0\<close>\<close>

definition extraHeight :: "real option \<Rightarrow> real \<Rightarrow> real \<Rightarrow> real \<Rightarrow> real" where
  "extraHeight availH headerH childH followH =
     (case availH of None \<Rightarrow> 0
      | Some a \<Rightarrow> if a > headerH + childH + followH then a - headerH - childH - followH else 0)"

definition statementElements ::
  "env \<Rightarrow> string \<Rightarrow> real \<Rightarrow> real \<Rightarrow> real \<Rightarrow> real \<Rightarrow> real \<Rightarrow> real \<Rightarrow> element list" where
  "statementElements e label x y width fontSize rowH stretchH =
     [Bg x y width stretchH colorStatement, Ln x y (x + width) y, Ln x y x (y + stretchH),
      TextEl label (x + PADDING_X) y rowH fontSize (Some (width - PADDING_X * 2)) ''start'']"

definition insertCaseElements ::
  "env \<Rightarrow> string \<Rightarrow> real \<Rightarrow> real \<Rightarrow> real \<Rightarrow> real \<Rightarrow> real \<Rightarrow> real \<Rightarrow> element list" where
  "insertCaseElements e text x y width fontSize rowH stretchH =
     [Bg x y width stretchH colorBranch, Ln x y x (y + stretchH),
      TextEl text (x + PADDING_X) y rowH fontSize (Some (width - PADDING_X * 2)) ''start'']"

definition branchHeader ::
  "env \<Rightarrow> string \<Rightarrow> real list \<Rightarrow> real \<Rightarrow> real \<Rightarrow> real \<Rightarrow> real \<Rightarrow> element list" where
  "branchHeader e text colW x y width fontSize =
     (let textW = width - PADDING_X * 2;
          condH = wrappedTextHeight e text textW fontSize;
          slopeH = fontSize * 1.3 + PADDING_Y;
          labelRowH = fontSize * 1.3 + PADDING_Y;
          headerH = condH + slopeH + labelRowH;
          divX = x + colW ! 0;
          slopeBottom = y + condH + slopeH;
          smallFS = fontSize * 0.8
      in [Bg x y width headerH colorBranch, Ln x y (x + width) y, Ln x y x (y + headerH),
          TextEl text (x + width / 2) y condH fontSize (Some textW) ''middle'',
          Ln x (y + condH) divX slopeBottom, Ln (x + width) (y + condH) divX slopeBottom,
          TextEl ''Wahr'' (x + PADDING_X) slopeBottom labelRowH smallFS None ''start'',
          TextEl ''Falsch'' (x + width - PADDING_X) slopeBottom labelRowH smallFS None ''end'',
          Ln divX slopeBottom divX (y + headerH)])"

text \<open>\<open>colXPositions[i]\<close> is the sum of the first \<open>i\<close> column widths. In \<open>caseHeader\<close>
  the quotient \<open>frac\<close> that places the top of an inner divider has the divisor
  \<open>colXPositions[numCols - 1]\<close> or \<open>width\<close>; for a divisor 0 it is 0 here and \<open>NaN\<close> or
  an infinity in the program.\<close>

definition colXPosition :: "real list \<Rightarrow> nat \<Rightarrow> real" where
  "colXPosition colW i = sum_list (take i colW)"

definition caseHeader ::
  "env \<Rightarrow> string \<Rightarrow> bool \<Rightarrow> nat \<Rightarrow> real list \<Rightarrow> real \<Rightarrow> real \<Rightarrow> real \<Rightarrow> real \<Rightarrow> element list" where
  "caseHeader e text don numCols colW x y width fontSize =
     (let textW = width - PADDING_X * 2;
          condH = wrappedTextHeight e text textW fontSize;
          slopeH = fontSize * 1.3 + PADDING_Y;
          headerH = condH + slopeH
      in [Bg x y width headerH colorBranch, Ln x y (x + width) y, Ln x y x (y + headerH),
          TextEl text (x + width / 2) y condH fontSize (Some textW) ''middle'']
         @ (if don then
              (let lastDivX = x + colXPosition colW (numCols - 1)
               in [Ln x (y + condH) lastDivX (y + headerH),
                   Ln (x + width) (y + condH) lastDivX (y + headerH)]
                  @ map (\<lambda>i. let dividerX = x + colXPosition colW i;
                                  frac = colXPosition colW i / colXPosition colW (numCols - 1);
                                  diagY = y + condH + slopeH * frac
                              in Ln dividerX diagY dividerX (y + headerH)) [1 ..< numCols - 1])
            else
              [Ln x (y + condH) (x + width) (y + headerH)]
              @ map (\<lambda>i. let dividerX = x + colXPosition colW i;
                              frac = colXPosition colW i / width;
                              diagY = y + condH + slopeH * frac
                          in Ln dividerX diagY dividerX (y + headerH)) [1 ..< numCols]))"

definition loopElements ::
  "env \<Rightarrow> string \<Rightarrow> real \<Rightarrow> real \<Rightarrow> real \<Rightarrow> real \<Rightarrow> real \<Rightarrow> real \<Rightarrow> element list" where
  "loopElements e text x y width fontSize rowH bodyH =
     [Bg x y width rowH colorLoop, Ln x y (x + width) y, Ln x y x (y + rowH),
      TextEl text (x + PADDING_X) y rowH fontSize (Some (width - PADDING_X * 2)) ''start'',
      Bg x (y + rowH) LOOP_INDENT bodyH colorLoop, Ln x (y + rowH) x (y + rowH + bodyH),
      Ln (x + LOOP_INDENT) (y + rowH) (x + LOOP_INDENT) (y + rowH + bodyH)]"

definition footLoopTop :: "real \<Rightarrow> real \<Rightarrow> real \<Rightarrow> real \<Rightarrow> element list" where
  "footLoopTop x y width bodyH =
     [Bg x y LOOP_INDENT bodyH colorLoop, Ln x y (x + width) y, Ln x y x (y + bodyH),
      Ln (x + LOOP_INDENT) y (x + LOOP_INDENT) (y + bodyH)]"

definition footLoopFooter ::
  "string \<Rightarrow> real \<Rightarrow> real \<Rightarrow> real \<Rightarrow> real \<Rightarrow> real \<Rightarrow> real \<Rightarrow> element list" where
  "footLoopFooter text x y width fontSize rowH bodyH =
     [Bg x (y + bodyH) width rowH colorLoop, Ln (x + LOOP_INDENT) (y + bodyH) (x + width) (y + bodyH),
      Ln x (y + bodyH) x (y + bodyH + rowH),
      TextEl text (x + PADDING_X) (y + bodyH) rowH fontSize (Some (width - PADDING_X * 2)) ''start'']"

definition functionTop ::
  "string \<Rightarrow> real \<Rightarrow> real \<Rightarrow> real \<Rightarrow> real \<Rightarrow> real \<Rightarrow> real \<Rightarrow> element list" where
  "functionTop headerText x y width fontSize rowH bodyH =
     [Bg x y width rowH colorFunction, Ln x y (x + width) y, Ln x y x (y + rowH),
      TextEl headerText (x + PADDING_X) y rowH fontSize (Some (width - PADDING_X * 2)) ''start'',
      Bg x (y + rowH) LOOP_INDENT bodyH colorFunction, Ln x (y + rowH) x (y + rowH + bodyH),
      Ln (x + LOOP_INDENT) (y + rowH) (x + LOOP_INDENT) (y + rowH + bodyH)]"

definition functionFooter :: "real \<Rightarrow> real \<Rightarrow> real \<Rightarrow> real \<Rightarrow> real \<Rightarrow> real \<Rightarrow> element list" where
  "functionFooter x y width fontSize rowH bodyH =
     (let footH = DEFAULT_ROW_HEIGHT * 0.6
      in [Bg x (y + rowH + bodyH) width footH colorFunction,
          Ln (x + LOOP_INDENT) (y + rowH + bodyH) (x + width) (y + rowH + bodyH),
          Ln x (y + rowH + bodyH) x (y + rowH + bodyH + footH),
          TextEl ''}'' (x + PADDING_X) (y + rowH + bodyH) footH fontSize None ''start''])"

definition tryTop :: "real \<Rightarrow> real \<Rightarrow> real \<Rightarrow> real \<Rightarrow> real \<Rightarrow> real \<Rightarrow> element list" where
  "tryTop x y width fontSize tryRowH tryBodyH =
     [Bg x y width tryRowH colorBranch, Ln x y (x + width) y, Ln x y x (y + tryRowH),
      TextEl ''Try'' (x + PADDING_X) y tryRowH fontSize None ''start'',
      Bg x (y + tryRowH) LOOP_INDENT tryBodyH colorBranch,
      Ln x (y + tryRowH) x (y + tryRowH + tryBodyH),
      Ln (x + LOOP_INDENT) (y + tryRowH) (x + LOOP_INDENT) (y + tryRowH + tryBodyH)]"

definition catchTop ::
  "string \<Rightarrow> real \<Rightarrow> real \<Rightarrow> real \<Rightarrow> real \<Rightarrow> real \<Rightarrow> real \<Rightarrow> element list" where
  "catchTop label x catchY width fontSize catchRowH catchBodyH =
     [Bg x catchY width catchRowH colorBranch, Ln (x + LOOP_INDENT) catchY (x + width) catchY,
      Ln x catchY x (catchY + catchRowH),
      TextEl label (x + PADDING_X) catchY catchRowH fontSize (Some (width - PADDING_X * 2)) ''start'',
      Bg x (catchY + catchRowH) LOOP_INDENT catchBodyH colorBranch,
      Ln x (catchY + catchRowH) x (catchY + catchRowH + catchBodyH),
      Ln (x + LOOP_INDENT) (catchY + catchRowH) (x + LOOP_INDENT) (catchY + catchRowH + catchBodyH),
      Ln x (catchY + catchRowH + catchBodyH) (x + LOOP_INDENT) (catchY + catchRowH + catchBodyH)]"

text \<open>
  \<open>renderNode\<close> returns \<open>{elements, height}\<close>. \<open>renderCases\<close> is the loop over the case
  columns followed by the default column: it carries \<open>curX\<close>, draws a divider before
  every column but the first and, at the end of \<open>cases\<close>, renders the default column at
  the final \<open>curX\<close> when \<open>defaultOn && defaultNode\<close> (\<open>dn\<close> is \<open>Null\<close> otherwise). The
  list of widths it walks is never shorter than the list of cases.
\<close>

definition defaultColumn :: "bool \<Rightarrow> node \<Rightarrow> node" where
  "defaultColumn don dn = (if don then dn else Null)"

lemma size_defaultColumn: "size (defaultColumn don dn) \<le> size dn"
  by (simp add: defaultColumn_def)

text \<open>The row of a statement, stretched when the column has room left; the natural and
  the stretched height of the columns of a branch and of a case node.\<close>

definition statementStretch :: "env \<Rightarrow> string \<Rightarrow> node \<Rightarrow> real \<Rightarrow> real \<Rightarrow> real option \<Rightarrow> real" where
  "statementStretch e label f fontSize width availH =
     stretchRow availH (rowHeight e label fontSize width)
       (rowHeight e label fontSize width + measureHeight e f fontSize width)"

definition branchNaturalH :: "env \<Rightarrow> real list option \<Rightarrow> node \<Rightarrow> node \<Rightarrow> real \<Rightarrow> real \<Rightarrow> real" where
  "branchNaturalH e cw tc fc fontSize width =
     max (measureHeight e tc fontSize (columnWidths width 2 cw ! 0))
         (measureHeight e fc fontSize (columnWidths width 2 cw ! 1))"

definition branchChildH ::
  "env \<Rightarrow> string \<Rightarrow> real list option \<Rightarrow> node \<Rightarrow> node \<Rightarrow> node \<Rightarrow> real \<Rightarrow> real \<Rightarrow> real option \<Rightarrow> real" where
  "branchChildH e text cw tc fc f fontSize width availH =
     branchNaturalH e cw tc fc fontSize width
       + extraHeight availH (branchHeaderH e text fontSize width)
           (branchNaturalH e cw tc fc fontSize width) (measureHeight e f fontSize width)"

definition caseNaturalH ::
  "env \<Rightarrow> real list option \<Rightarrow> bool \<Rightarrow> node \<Rightarrow> node list \<Rightarrow> real \<Rightarrow> real \<Rightarrow> real" where
  "caseNaturalH e cw don dn cs fontSize width =
     (let maxChildH = foldl max 0
            (map (\<lambda>(c, w). measureHeight e c fontSize w) (zip cs (caseColW width cs don cw)))
      in if don \<and> dn \<noteq> Null
         then max maxChildH (measureHeight e dn fontSize (lastColW width cs don cw))
         else maxChildH)"

definition caseChildH ::
  "env \<Rightarrow> string \<Rightarrow> real list option \<Rightarrow> bool \<Rightarrow> node \<Rightarrow> node list \<Rightarrow> node \<Rightarrow> real \<Rightarrow> real
     \<Rightarrow> real option \<Rightarrow> real" where
  "caseChildH e text cw don dn cs f fontSize width availH =
     caseNaturalH e cw don dn cs fontSize width
       + extraHeight availH (caseHeaderH e text fontSize width)
           (caseNaturalH e cw don dn cs fontSize width) (measureHeight e f fontSize width)"

definition loopBodyH :: "env \<Rightarrow> string \<Rightarrow> node \<Rightarrow> real \<Rightarrow> real \<Rightarrow> real" where
  "loopBodyH e label ch fontSize width =
     bodyHeight (measureHeight e ch fontSize (width - LOOP_INDENT)) (rowHeight e label fontSize width)"

text \<open>
  \<open>renderNode\<close> returns \<open>{elements, height}\<close>. \<open>renderCases\<close> is the loop over the case
  columns followed by the default column: it carries \<open>curX\<close>, draws a divider before
  every column but the first and, at the end of \<open>cases\<close>, renders the default column at
  the final \<open>curX\<close> when \<open>defaultOn && defaultNode\<close> (\<open>dn\<close> is \<open>Null\<close> otherwise). The
  list of widths it walks is never shorter than the list of cases.
\<close>

function renderNode ::
    "env \<Rightarrow> node \<Rightarrow> real \<Rightarrow> real \<Rightarrow> real \<Rightarrow> real \<Rightarrow> real option \<Rightarrow> element list \<times> real"
  and renderCases ::
    "env \<Rightarrow> node list \<Rightarrow> real list \<Rightarrow> bool \<Rightarrow> real \<Rightarrow> real \<Rightarrow> real \<Rightarrow> real \<Rightarrow> node \<Rightarrow> real
       \<Rightarrow> element list"
where
  "renderNode e Null x y width fontSize availH = ([], 0)"
| "renderNode e (InsertNode i f) x y width fontSize availH =
     (let sub = renderNode e f x (y + insertNodeHeight e) width fontSize
                  (insertAvail availH (insertNodeHeight e))
      in (fst sub, insertNodeHeight e + snd sub))"
| "renderNode e (Placeholder i) x y width fontSize availH = ([], 0)"
| "renderNode e (TaskNode i text f) x y width fontSize availH =
     (let stretchH = statementStretch e text f fontSize width availH;
          follow = renderNode e f x (y + stretchH) width fontSize (remain availH stretchH)
      in (statementElements e text x y width fontSize (rowHeight e text fontSize width) stretchH
            @ fst follow,
          stretchH + snd follow))"
| "renderNode e (InputNode i text f) x y width fontSize availH =
     (let stretchH = statementStretch e (inputMarker @ text) f fontSize width availH;
          follow = renderNode e f x (y + stretchH) width fontSize (remain availH stretchH)
      in (statementElements e (inputMarker @ text) x y width fontSize
            (rowHeight e (inputMarker @ text) fontSize width) stretchH @ fst follow,
          stretchH + snd follow))"
| "renderNode e (OutputNode i text f) x y width fontSize availH =
     (let stretchH = statementStretch e (outputMarker @ text) f fontSize width availH;
          follow = renderNode e f x (y + stretchH) width fontSize (remain availH stretchH)
      in (statementElements e (outputMarker @ text) x y width fontSize
            (rowHeight e (outputMarker @ text) fontSize width) stretchH @ fst follow,
          stretchH + snd follow))"
| "renderNode e (InsertCase i text f) x y width fontSize availH =
     (let stretchH = statementStretch e text f fontSize width availH;
          follow = renderNode e f x (y + stretchH) width fontSize (remain availH stretchH)
      in (insertCaseElements e text x y width fontSize (rowHeight e text fontSize width) stretchH
            @ fst follow,
          stretchH + snd follow))"
| "renderNode e (BranchNode i text cw tc fc f) x y width fontSize availH =
     (let headerH = branchHeaderH e text fontSize width;
          colW = columnWidths width 2 cw;
          childH = branchChildH e text cw tc fc f fontSize width availH;
          trueResult = renderNode e tc x (y + headerH) (colW ! 0) fontSize (Some childH);
          falseResult = renderNode e fc (x + colW ! 0) (y + headerH) (colW ! 1) fontSize (Some childH);
          follow = renderNode e f x (y + (headerH + childH)) width fontSize
                     (remain availH (headerH + childH))
      in (branchHeader e text colW x y width fontSize @ fst trueResult @ fst falseResult
            @ [Ln (x + colW ! 0) (y + headerH) (x + colW ! 0) (y + headerH + childH)] @ fst follow,
          headerH + childH + snd follow))"
| "renderNode e (CaseNode i text cw don dn cs f) x y width fontSize availH =
     (let headerH = caseHeaderH e text fontSize width;
          maxChildH = caseChildH e text cw don dn cs f fontSize width availH;
          columns = renderCases e cs (caseColW width cs don cw) True x (y + headerH) fontSize
                      maxChildH (defaultColumn don dn) (lastColW width cs don cw);
          follow = renderNode e f x (y + (headerH + maxChildH)) width fontSize
                     (remain availH (headerH + maxChildH))
      in (caseHeader e text don (numColumns cs don) (caseColW width cs don cw) x y width fontSize
            @ columns @ fst follow,
          headerH + maxChildH + snd follow))"
| "renderNode e (HeadLoopNode i text ch f) x y width fontSize availH =
     (let rowH = rowHeight e text fontSize width;
          bodyH = loopBodyH e text ch fontSize width;
          childResult = renderNode e ch (x + LOOP_INDENT) (y + rowH) (width - LOOP_INDENT) fontSize None;
          follow = renderNode e f x (y + (rowH + bodyH)) width fontSize (remain availH (rowH + bodyH))
      in (loopElements e text x y width fontSize rowH bodyH @ fst childResult @ fst follow,
          rowH + bodyH + snd follow))"
| "renderNode e (CountLoopNode i text ch f) x y width fontSize availH =
     (let rowH = rowHeight e text fontSize width;
          bodyH = loopBodyH e text ch fontSize width;
          childResult = renderNode e ch (x + LOOP_INDENT) (y + rowH) (width - LOOP_INDENT) fontSize None;
          follow = renderNode e f x (y + (rowH + bodyH)) width fontSize (remain availH (rowH + bodyH))
      in (loopElements e text x y width fontSize rowH bodyH @ fst childResult @ fst follow,
          rowH + bodyH + snd follow))"
| "renderNode e (FootLoopNode i text ch f) x y width fontSize availH =
     (let rowH = rowHeight e text fontSize width;
          bodyH = loopBodyH e text ch fontSize width;
          childResult = renderNode e ch (x + LOOP_INDENT) y (width - LOOP_INDENT) fontSize None;
          follow = renderNode e f x (y + (bodyH + rowH)) width fontSize (remain availH (bodyH + rowH))
      in (footLoopTop x y width bodyH @ fst childResult
            @ footLoopFooter text x y width fontSize rowH bodyH @ fst follow,
          bodyH + rowH + snd follow))"
| "renderNode e (FunctionNode i text ps ch f) x y width fontSize availH =
     (let rowH = rowHeight e (functionHeader text ps) fontSize width;
          bodyH = loopBodyH e (functionHeader text ps) ch fontSize width;
          childResult = renderNode e ch (x + LOOP_INDENT) (y + rowH) (width - LOOP_INDENT) fontSize None;
          follow = renderNode e f x (y + (rowH + bodyH + footHeight)) width fontSize
                     (remain availH (rowH + bodyH + footHeight))
      in (functionTop (functionHeader text ps) x y width fontSize rowH bodyH @ fst childResult
            @ functionFooter x y width fontSize rowH bodyH @ fst follow,
          rowH + bodyH + footHeight + snd follow))"
| "renderNode e (TryCatchNode i text tc cc f) x y width fontSize availH =
     (let tryRowH = rowHeight e ''Try'' fontSize width;
          tryBodyH = loopBodyH e ''Try'' tc fontSize width;
          catchRowH = rowHeight e (catchLabel text) fontSize width;
          catchBodyH = loopBodyH e (catchLabel text) cc fontSize width;
          tryResult = renderNode e tc (x + LOOP_INDENT) (y + tryRowH) (width - LOOP_INDENT) fontSize None;
          catchResult = renderNode e cc (x + LOOP_INDENT) (y + tryRowH + tryBodyH + catchRowH)
                          (width - LOOP_INDENT) fontSize None;
          follow = renderNode e f x (y + (tryRowH + tryBodyH + catchRowH + catchBodyH)) width fontSize
                     (remain availH (tryRowH + tryBodyH + catchRowH + catchBodyH))
      in (tryTop x y width fontSize tryRowH tryBodyH @ fst tryResult
            @ catchTop (catchLabel text) x (y + tryRowH + tryBodyH) width fontSize catchRowH catchBodyH
            @ fst catchResult @ fst follow,
          tryRowH + tryBodyH + catchRowH + catchBodyH + snd follow))"
| "renderCases e [] ws first curX topY fontSize maxChildH dn wLast =
     (if dn \<noteq> Null
      then fst (renderNode e dn curX topY wLast fontSize (Some maxChildH))
           @ [Ln curX topY curX (topY + maxChildH)]
      else [])"
| "renderCases e (c # cs) [] first curX topY fontSize maxChildH dn wLast = []"
| "renderCases e (c # cs) (w # ws) first curX topY fontSize maxChildH dn wLast =
     fst (renderNode e c curX topY w fontSize (Some maxChildH))
       @ (if first then [] else [Ln curX topY curX (topY + maxChildH)])
       @ renderCases e cs ws False (curX + w) topY fontSize maxChildH dn wLast"
  by pat_completeness auto

termination
  apply (relation "measure (\<lambda>x. case x of
            Inl (e, n, x, y, w, fs, a) \<Rightarrow> 2 * size n
          | Inr (e, cs, ws, first, cx, ty, fs, m, dn, wl) \<Rightarrow> 2 * (size_list size cs + size dn) + 1)")
  apply simp_all
  subgoal for i t cw don dn cs f
    using size_defaultColumn[of don dn] by simp
  done
section \<open>Pseudocode parser\<close>

subsection \<open>Strings and patterns\<close>

definition trimStart :: "string \<Rightarrow> string" where
  "trimStart s = dropWhile is_space s"

definition trimEnd :: "string \<Rightarrow> string" where
  "trimEnd s = rev (dropWhile is_space (rev s))"

definition trim :: "string \<Rightarrow> string" where
  "trim s = trimEnd (trimStart s)"

definition endsWithColon :: "string \<Rightarrow> bool" where
  "endsWithColon s = (s \<noteq> [] \<and> last s = CHR '':'')"

text \<open>Case-insensitive matching compares the canonical (upper-case) forms of two code
  units: \<open>a\<close>..\<open>z\<close> and U+00E0..U+00FE except U+00F7 have one below U+0100.\<close>

definition canonicalize :: "char \<Rightarrow> char" where
  "canonicalize c =
     (let n = (of_char c :: nat)
      in if (97 \<le> n \<and> n \<le> 122) \<or> (224 \<le> n \<and> n \<le> 254 \<and> n \<noteq> 247)
         then char_of (n - 32) else c)"

definition ciPrefix :: "string \<Rightarrow> string \<Rightarrow> bool" where
  "ciPrefix k s = (length k \<le> length s \<and> map canonicalize (take (length k) s) = map canonicalize k)"

text \<open>
  Every pattern of the parser is a sequence of items anchored at both ends, and every
  quantifier in it applies to a single character class. An item is a literal (a keyword
  passed through \<open>escapeRegex\<close>, or punctuation; compared case-insensitively), a greedy
  repetition of a class with a least count, a lazy repetition \<open>*?\<close>, or an optional
  character. A repetition may be a capture group. \<open>rmatch\<close> is the backtracking search:
  a greedy item tries the longest run first, a lazy one the shortest, and the first
  split for which the rest of the pattern matches the rest of the string wins. The
  result holds the captures in order.
\<close>

datatype item =
    Lit string
  | Greedy "char \<Rightarrow> bool" nat bool
  | Lazy "char \<Rightarrow> bool" bool
  | Opt char

fun runLength :: "(char \<Rightarrow> bool) \<Rightarrow> string \<Rightarrow> nat" where
  "runLength p s = length (takeWhile p s)"

fun rmatch :: "item list \<Rightarrow> string \<Rightarrow> string list option" where
  "rmatch [] s = (if s = [] then Some [] else None)"
| "rmatch (Lit k # items) s =
     (if ciPrefix k s then rmatch items (drop (length k) s) else None)"
| "rmatch (Greedy p least cap # items) s =
     firstSome (map (\<lambda>n. map_option (\<lambda>caps. (if cap then [take n s] else []) @ caps)
                               (rmatch items (drop n s)))
                   (rev [least ..< Suc (runLength p s)]))"
| "rmatch (Lazy p cap # items) s =
     firstSome (map (\<lambda>n. map_option (\<lambda>caps. (if cap then [take n s] else []) @ caps)
                               (rmatch items (drop n s)))
                   [0 ..< Suc (runLength p s)])"
| "rmatch (Opt c # items) s =
     (if s \<noteq> [] \<and> hd s = c
      then orElse (rmatch items (tl s)) (rmatch items s)
      else rmatch items s)"

text \<open>Character classes: \<open>.\<close> (no line terminator), \<open>\w\<close>, \<open>[^"]\<close>, \<open>[^)]\<close>,
  \<open>[0-9.,\s]\<close>.\<close>

definition dot :: "char \<Rightarrow> bool" where
  "dot c = (c \<noteq> CHR 0x0A \<and> c \<noteq> CHR 0x0D)"

definition is_digit :: "char \<Rightarrow> bool" where
  "is_digit c = (c \<in> set ''0123456789'')"

definition wordChar :: "char \<Rightarrow> bool" where
  "wordChar c = (c \<in> set ''abcdefghijklmnopqrstuvwxyzABCDEFGHIJKLMNOPQRSTUVWXYZ0123456789_'')"

definition notQuote :: "char \<Rightarrow> bool" where
  "notQuote c = (c \<noteq> dq)"

definition notRParen :: "char \<Rightarrow> bool" where
  "notRParen c = (c \<noteq> CHR '')'')"

definition widthChar :: "char \<Rightarrow> bool" where
  "widthChar c = (is_digit c \<or> c = CHR ''.'' \<or> c = CHR '','' \<or> is_space c)"


subsection \<open>Keyword maps\<close>

record keywordMap =
  kw_if :: string
  kw_else :: string
  kw_repeat :: string
  kw_while :: string
  kw_for :: string
  kw_switch :: string
  kw_case :: string
  kw_function :: string
  kw_try :: string
  kw_catch :: string
  kw_input :: string
  kw_output :: string
  kw_true :: string
  kw_false :: string
  kw_default :: string

definition KEYWORDS_DE :: keywordMap where
  "KEYWORDS_DE = \<lparr> kw_if = ''falls'', kw_else = ''sonst'', kw_repeat = ''wiederhole'',
     kw_while = ''solange'', kw_for = [CHR ''f'', CHR 0xFC, CHR ''r''],
     kw_switch = ''unterscheide'', kw_case = ''fall'', kw_function = ''funktion'',
     kw_try = ''versuche'', kw_catch = ''fange'', kw_input = ''eingabe'', kw_output = ''ausgabe'',
     kw_true = ''Wahr'', kw_false = ''Falsch'', kw_default = ''Sonst'' \<rparr>"

definition KEYWORDS_EN :: keywordMap where
  "KEYWORDS_EN = \<lparr> kw_if = ''if'', kw_else = ''else'', kw_repeat = ''repeat'',
     kw_while = ''while'', kw_for = ''for'', kw_switch = ''switch'', kw_case = ''case'',
     kw_function = ''function'', kw_try = ''try'', kw_catch = ''catch'', kw_input = ''input'',
     kw_output = ''output'', kw_true = ''True'', kw_false = ''False'', kw_default = ''Default'' \<rparr>"

text \<open>The patterns of \<open>mergeBlocks\<close>. \<open>blockPattern k\<close> is \<open>^k\s*:$\<close>; a prefix pattern
  \<open>^k\s+\<close> is tested by \<open>prefixTest\<close> and removed by \<open>prefixStrip\<close> (the keyword and the
  whole run of white space after it).\<close>

definition blockPattern :: "string \<Rightarrow> string \<Rightarrow> bool" where
  "blockPattern k text = (rmatch [Lit k, Greedy is_space 0 False, Lit '':''] text \<noteq> None)"

definition prefixTest :: "string \<Rightarrow> string \<Rightarrow> bool" where
  "prefixTest k text = (ciPrefix k text \<and> drop (length k) text \<noteq> [] \<and> is_space (hd (drop (length k) text)))"

definition prefixStrip :: "string \<Rightarrow> string \<Rightarrow> string" where
  "prefixStrip k text = (if prefixTest k text then dropWhile is_space (drop (length k) text) else text)"

definition reTryBlock :: "keywordMap \<Rightarrow> string \<Rightarrow> bool" where
  "reTryBlock kw = blockPattern (kw_try kw)"
definition reCatchPrefix :: "keywordMap \<Rightarrow> string \<Rightarrow> bool" where
  "reCatchPrefix kw = prefixTest (kw_catch kw)"
definition reIfPrefix :: "keywordMap \<Rightarrow> string \<Rightarrow> bool" where
  "reIfPrefix kw = prefixTest (kw_if kw)"
definition reElseBlock :: "keywordMap \<Rightarrow> string \<Rightarrow> bool" where
  "reElseBlock kw = blockPattern (kw_else kw)"
definition reRepeatBlock :: "keywordMap \<Rightarrow> string \<Rightarrow> bool" where
  "reRepeatBlock kw = blockPattern (kw_repeat kw)"
definition reWhilePrefix :: "keywordMap \<Rightarrow> string \<Rightarrow> bool" where
  "reWhilePrefix kw = prefixTest (kw_while kw)"

text \<open>\<open>^repeat\s+for\s+(.+)\s*:$\<close>, \<open>^repeat\s+while\s+(.+)\s*:$\<close>,
  \<open>^function\s+(\w+)\s*\(([^)]*)\)\s*:$\<close>, \<open>^switch\s+(.+)\s*:$\<close>, \<open>^case\s+(.+)\s*:$\<close>,
  \<open>^input\s*\(\s*"?([^"]*)"?\s*\)$\<close> and the same for output.\<close>

definition reCountLoop :: "keywordMap \<Rightarrow> string \<Rightarrow> string list option" where
  "reCountLoop kw = rmatch [Lit (kw_repeat kw), Greedy is_space 1 False, Lit (kw_for kw),
      Greedy is_space 1 False, Greedy dot 1 True, Greedy is_space 0 False, Lit '':'']"

definition reHeadLoop :: "keywordMap \<Rightarrow> string \<Rightarrow> string list option" where
  "reHeadLoop kw = rmatch [Lit (kw_repeat kw), Greedy is_space 1 False, Lit (kw_while kw),
      Greedy is_space 1 False, Greedy dot 1 True, Greedy is_space 0 False, Lit '':'']"

definition reFuncDef :: "keywordMap \<Rightarrow> string \<Rightarrow> string list option" where
  "reFuncDef kw = rmatch [Lit (kw_function kw), Greedy is_space 1 False, Greedy wordChar 1 True,
      Greedy is_space 0 False, Lit ''('', Greedy notRParen 0 True, Lit '')'',
      Greedy is_space 0 False, Lit '':'']"

definition reSwitchBlock :: "keywordMap \<Rightarrow> string \<Rightarrow> string list option" where
  "reSwitchBlock kw = rmatch [Lit (kw_switch kw), Greedy is_space 1 False, Greedy dot 1 True,
      Greedy is_space 0 False, Lit '':'']"

definition reCaseLabel :: "keywordMap \<Rightarrow> string \<Rightarrow> string list option" where
  "reCaseLabel kw = rmatch [Lit (kw_case kw), Greedy is_space 1 False, Greedy dot 1 True,
      Greedy is_space 0 False, Lit '':'']"

definition callPattern :: "string \<Rightarrow> string \<Rightarrow> string list option" where
  "callPattern k = rmatch [Lit k, Greedy is_space 0 False, Lit ''('', Greedy is_space 0 False,
      Opt dq, Greedy notQuote 0 True, Opt dq, Greedy is_space 0 False, Lit '')'']"

definition reInput :: "keywordMap \<Rightarrow> string \<Rightarrow> string list option" where
  "reInput kw = callPattern (kw_input kw)"

definition reOutput :: "keywordMap \<Rightarrow> string \<Rightarrow> string list option" where
  "reOutput kw = callPattern (kw_output kw)"

text \<open>\<open>text.replace(/^"(.*)"$/, "$1")\<close> on a case label.\<close>

definition unquote :: "string \<Rightarrow> string" where
  "unquote s = (case rmatch [Lit [dq], Greedy dot 0 True, Lit [dq]] s of
                  Some [inner] \<Rightarrow> inner | _ \<Rightarrow> s)"

definition stripColon :: "string \<Rightarrow> string" where
  "stripColon text = (if endsWithColon text then trimEnd (butlast text) else text)"

text \<open>\<open>parseFloat\<close> on a trimmed piece made of digits, dots and white space: the longest
  prefix \<open>digits\<close>, \<open>digits.digits\<close>, \<open>digits.\<close> or \<open>.digits\<close>; \<open>None\<close> is \<open>NaN\<close>. The value
  is the exact decimal. The program takes the double nearest to it, which is
  \<open>Infinity\<close> for a decimal of some 309 digits or more; the numbers of this model are not
  rounded and are finite. Which pieces give a number and which give \<open>NaN\<close>, and so how
  many widths are read, is the same in both.\<close>

definition digitValue :: "char \<Rightarrow> nat" where
  "digitValue c = of_char c - 48"

definition decimalValue :: "string \<Rightarrow> nat" where
  "decimalValue ds = foldl (\<lambda>acc c. 10 * acc + digitValue c) 0 ds"

definition parseFloat :: "string \<Rightarrow> real option" where
  "parseFloat s =
     (let t = trimStart s;
          ip = takeWhile is_digit t;
          rest = dropWhile is_digit t;
          fp = (if rest \<noteq> [] \<and> hd rest = CHR ''.'' then takeWhile is_digit (tl rest) else [])
      in if ip = [] \<and> fp = [] then None
         else Some (real (decimalValue ip) + real (decimalValue fp) / 10 ^ length fp))"

text \<open>\<open>extractColumnWidths\<close>, pattern \<open>^(.*?)\s*\[([0-9.,\s]+)\]\s*$\<close>.\<close>

definition extractColumnWidths :: "string \<Rightarrow> string \<times> real list option" where
  "extractColumnWidths str =
     (case rmatch [Lazy dot True, Greedy is_space 0 False, Lit ''['', Greedy widthChar 1 True,
                   Lit '']'', Greedy is_space 0 False] str of
        Some [m1, m2] \<Rightarrow>
          (let widths = List.map_filter (\<lambda>s. parseFloat (trim s)) (splitChar (CHR '','') m2 [])
           in (trim m1, if widths \<noteq> [] then Some widths else None))
      | _ \<Rightarrow> (str, None))"

subsection \<open>Lines and blocks\<close>

datatype line = Line (ltext: string) (lindent: nat)

datatype block = Block (btext: string) (bindent: nat) (children: "line list")

definition expandTabs :: "string \<Rightarrow> string" where
  "expandTabs raw = concat (map (\<lambda>c. if c = CHR 0x09 then ''    '' else [c]) raw)"

definition tokenizeLine :: "string \<Rightarrow> line list" where
  "tokenizeLine raw =
     (let trimmed = trimEnd raw
      in if trimmed = [] \<or> hd trimmed = CHR ''#'' then []
         else [Line (trim trimmed) (length (expandTabs raw) - length (trimStart (expandTabs raw)))])"

definition tokenize :: "string \<Rightarrow> line list" where
  "tokenize source = concat (map tokenizeLine (splitChar (CHR 0x0A) source []))"

function groupBlocks :: "line list \<Rightarrow> nat \<Rightarrow> block list" where
  "groupBlocks [] baseIndent = []"
| "groupBlocks (l # ls) baseIndent =
     (if lindent l < baseIndent then []
      else if lindent l > baseIndent then groupBlocks ls baseIndent
      else Block (ltext l) (lindent l) (takeWhile (\<lambda>x. lindent x > baseIndent) ls)
             # groupBlocks (dropWhile (\<lambda>x. lindent x > baseIndent) ls) baseIndent)"
  by pat_completeness auto

termination
  by (relation "measure (\<lambda>(ls, b). length ls)")
     (auto simp: less_Suc_eq_le length_dropWhile_le)


subsection \<open>Building the tree\<close>

text \<open>The module counter \<open>_idCounter\<close> is threaded through every function that calls
  \<open>uid\<close>: such a function takes the counter last and returns it with its result.\<close>

definition uid :: "nat \<Rightarrow> ident \<times> nat" where
  "uid c = (''__pseudo_'' @ toStringRadix 10 (Suc c), Suc c)"

definition makeInsert :: "node \<Rightarrow> nat \<Rightarrow> node \<times> nat" where
  "makeInsert follow c = (InsertNode (Some (fst (uid c))) follow, snd (uid c))"

definition placeholder :: node where
  "placeholder = Placeholder None"

text \<open>\<open>makeInsert({ id: uid(), ... })\<close>: the node takes its identifier first, the
  \<open>InsertNode\<close> in front of it the next one.\<close>

definition withId :: "(ident option \<Rightarrow> node) \<Rightarrow> nat \<Rightarrow> node \<times> nat" where
  "withId build c = makeInsert (build (Some (fst (uid c)))) (snd (uid c))"

text \<open>The forward pre-scan: the flag \<open>_skip\<close> of block \<open>i + 1\<close> is set when blocks \<open>i\<close> and
  \<open>i + 1\<close> form a pair; the first block is never skipped.\<close>

definition secondHalf :: "keywordMap \<Rightarrow> string \<Rightarrow> string \<Rightarrow> bool" where
  "secondHalf kw text nextText =
     (if reTryBlock kw text \<and> reCatchPrefix kw nextText then True
      else if reIfPrefix kw text \<and> reElseBlock kw nextText then True
      else if reRepeatBlock kw text \<and> reWhilePrefix kw nextText \<and> \<not> endsWithColon nextText then True
      else False)"

fun skipFlags :: "keywordMap \<Rightarrow> block option \<Rightarrow> block list \<Rightarrow> bool list" where
  "skipFlags kw prev [] = []"
| "skipFlags kw prev (b # bs) =
     (case prev of None \<Rightarrow> False | Some a \<Rightarrow> secondHalf kw (btext a) (btext b))
       # skipFlags kw (Some b) bs"

definition prescan :: "keywordMap \<Rightarrow> block list \<Rightarrow> (block \<times> bool) list" where
  "prescan kw blocks = zip blocks (skipFlags kw None blocks)"

text \<open>\<open>nextBlock\<close> of a block is the block after it in the list, if any.\<close>

fun nextText :: "(block \<times> bool) list \<Rightarrow> string option" where
  "nextText [] = None"
| "nextText ((nb, s) # rest) = Some (btext nb)"

fun nextChildren :: "(block \<times> bool) list \<Rightarrow> line list" where
  "nextChildren [] = []"
| "nextChildren ((nb, s) # rest) = children nb"

definition nextMatches :: "(string \<Rightarrow> bool) \<Rightarrow> string option \<Rightarrow> bool" where
  "nextMatches p nt = (case nt of None \<Rightarrow> False | Some t \<Rightarrow> p t)"

text \<open>Which construct a block is, decided by the tests of the loop body in their order.
  The captures of the single-block patterns are kept.\<close>

datatype kind = KTryCatch | KIfElse | KIf | KFootLoop
  | KCountLoop string | KHeadLoop string | KFunction string string | KSwitch string
  | KInput string | KOutput string | KTask

definition capture1 :: "string list option \<Rightarrow> string option" where
  "capture1 m = (case m of Some [a] \<Rightarrow> Some a | _ \<Rightarrow> None)"

definition capture2 :: "string list option \<Rightarrow> (string \<times> string) option" where
  "capture2 m = (case m of Some [a, b] \<Rightarrow> Some (a, b) | _ \<Rightarrow> None)"

definition classify :: "keywordMap \<Rightarrow> string \<Rightarrow> string option \<Rightarrow> kind" where
  "classify kw text nt =
     (if reTryBlock kw text \<and> nextMatches (reCatchPrefix kw) nt then KTryCatch
      else if reIfPrefix kw text \<and> nextMatches (reElseBlock kw) nt then KIfElse
      else if reIfPrefix kw text then KIf
      else if reRepeatBlock kw text
              \<and> nextMatches (\<lambda>t. reWhilePrefix kw t \<and> \<not> endsWithColon t) nt then KFootLoop
      else case capture1 (reCountLoop kw text) of Some m \<Rightarrow> KCountLoop m | None \<Rightarrow>
          (case capture1 (reHeadLoop kw text) of Some m \<Rightarrow> KHeadLoop m | None \<Rightarrow>
          (case capture2 (reFuncDef kw text) of Some (f, p) \<Rightarrow> KFunction f p | None \<Rightarrow>
          (case capture1 (reSwitchBlock kw text) of Some m \<Rightarrow> KSwitch m | None \<Rightarrow>
          (case capture1 (reInput kw text) of Some m \<Rightarrow> KInput m | None \<Rightarrow>
          (case capture1 (reOutput kw text) of Some m \<Rightarrow> KOutput m | None \<Rightarrow> KTask))))))"

text \<open>The pieces of text the constructs keep.\<close>

definition catchTextOf :: "keywordMap \<Rightarrow> string option \<Rightarrow> string" where
  "catchTextOf kw nt = (case nt of None \<Rightarrow> [] | Some t \<Rightarrow> stripColon (prefixStrip (kw_catch kw) t))"

definition footCondOf :: "keywordMap \<Rightarrow> string option \<Rightarrow> string" where
  "footCondOf kw nt = (case nt of None \<Rightarrow> [] | Some t \<Rightarrow> trim (prefixStrip (kw_while kw) t))"

definition branchCond :: "keywordMap \<Rightarrow> string \<Rightarrow> string \<times> real list option" where
  "branchCond kw text = extractColumnWidths (stripColon (prefixStrip (kw_if kw) text))"

fun enumerateFrom :: "nat \<Rightarrow> 'a list \<Rightarrow> (nat \<times> 'a) list" where
  "enumerateFrom k [] = []"
| "enumerateFrom k (x # xs) = (k, x) # enumerateFrom (Suc k) xs"

definition parametersOf :: "string \<Rightarrow> param list" where
  "parametersOf captured =
     (let paramStr = trim captured
      in if paramStr = [] then []
         else map (\<lambda>(idx, p). Param (toStringRadix 10 (idx * 3)) (trim p))
                  (enumerateFrom 0 (splitChar (CHR '','') paramStr [])))"

text \<open>After the loop over the case blocks: a missing default is made up (its identifier
  first, then the one of its \<open>InsertNode\<close>), then the case node and its \<open>InsertNode\<close>.\<close>

definition finishSwitch ::
  "keywordMap \<Rightarrow> string \<Rightarrow> node list \<Rightarrow> node option \<Rightarrow> node \<Rightarrow> nat \<Rightarrow> node \<times> nat" where
  "finishSwitch kw rawVar cases dflt tail c =
     (case dflt of
        Some d \<Rightarrow>
          withId (\<lambda>i. CaseNode i (fst (extractColumnWidths rawVar)) (snd (extractColumnWidths rawVar))
                        True d cases tail) c
      | None \<Rightarrow>
          (let i = fst (uid c); ins = makeInsert placeholder (snd (uid c))
           in withId (\<lambda>j. CaseNode j (fst (extractColumnWidths rawVar))
                            (snd (extractColumnWidths rawVar)) False
                            (InsertCase (Some i) (kw_default kw) (fst ins)) cases tail) (snd ins)))"

definition branchWithoutElse ::
  "keywordMap \<Rightarrow> string \<Rightarrow> node \<Rightarrow> node \<Rightarrow> nat \<Rightarrow> node \<times> nat" where
  "branchWithoutElse kw text trueChild tail c =
     (let i = fst (uid c); ins = makeInsert placeholder (snd (uid c))
      in makeInsert (BranchNode (Some i) (fst (branchCond kw text)) (snd (branchCond kw text))
                       trueChild (fst ins) tail) (snd ins))"

definition blocksSize :: "block list \<Rightarrow> nat" where
  "blocksSize bs = sum_list (map (\<lambda>b. Suc (length (children b))) bs)"

lemma blocksSize_Cons [simp]: "blocksSize (b # bs) = Suc (length (children b)) + blocksSize bs"
  by (simp add: blocksSize_def)

lemma blocksSize_Nil [simp]: "blocksSize [] = 0"
  by (simp add: blocksSize_def)

lemma blocksSize_groupBlocks: "blocksSize (groupBlocks ls b) \<le> length ls"
proof (induction ls b rule: groupBlocks.induct)
  case (1 b) then show ?case by simp
next
  case (2 l ls b)
  have "length (takeWhile (\<lambda>x. b < lindent x) ls) + length (dropWhile (\<lambda>x. b < lindent x) ls) = length ls"
    by (metis length_append takeWhile_dropWhile_id)
  with 2 show ?case by auto
qed

lemma length_skipFlags: "length (skipFlags kw p bs) = length bs"
  by (induction bs arbitrary: p) auto

lemma map_fst_prescan: "map fst (prescan kw bs) = bs"
  by (simp add: prescan_def length_skipFlags)

lemma nextChildren_size: "length (nextChildren rest) < blocksSize (map fst rest) + 1"
  by (cases rest) auto

function mergeBlocks :: "keywordMap \<Rightarrow> line list \<Rightarrow> nat \<Rightarrow> nat \<Rightarrow> node \<times> nat"
  and mergeLoop :: "keywordMap \<Rightarrow> nat \<Rightarrow> (block \<times> bool) list \<Rightarrow> nat \<Rightarrow> node \<times> nat"
  and caseLoop :: "keywordMap \<Rightarrow> nat \<Rightarrow> block list \<Rightarrow> nat \<Rightarrow> node list \<times> node option \<times> nat"
where
  "mergeBlocks kw lines baseIndent =
     (if groupBlocks lines baseIndent = [] then makeInsert placeholder
      else mergeLoop kw baseIndent (prescan kw (groupBlocks lines baseIndent)))"
| "mergeLoop kw baseIndent [] = makeInsert Null"
| "mergeLoop kw baseIndent ((b, skip) # rest) = (\<lambda>c.
     case mergeLoop kw baseIndent rest c of (tail, c1) \<Rightarrow>
       if skip then (tail, c1)
       else
        (case classify kw (btext b) (nextText rest) of
           KTryCatch \<Rightarrow>
             (case mergeBlocks kw (children b) (baseIndent + 4) c1 of (tryChild, c2) \<Rightarrow>
              case mergeBlocks kw (nextChildren rest) (baseIndent + 4) c2 of (catchChild, c3) \<Rightarrow>
                withId (\<lambda>i. TryCatchNode i (catchTextOf kw (nextText rest)) tryChild catchChild tail) c3)
         | KIfElse \<Rightarrow>
             (case mergeBlocks kw (children b) (baseIndent + 4) c1 of (trueChild, c2) \<Rightarrow>
              case mergeBlocks kw (nextChildren rest) (baseIndent + 4) c2 of (falseChild, c3) \<Rightarrow>
                withId (\<lambda>i. BranchNode i (fst (branchCond kw (btext b))) (snd (branchCond kw (btext b)))
                              trueChild falseChild tail) c3)
         | KIf \<Rightarrow>
             (case mergeBlocks kw (children b) (baseIndent + 4) c1 of (trueChild, c2) \<Rightarrow>
                branchWithoutElse kw (btext b) trueChild tail c2)
         | KFootLoop \<Rightarrow>
             (case mergeBlocks kw (children b) (baseIndent + 4) c1 of (childTree, c2) \<Rightarrow>
                withId (\<lambda>i. FootLoopNode i (footCondOf kw (nextText rest)) childTree tail) c2)
         | KCountLoop m \<Rightarrow>
             (case mergeBlocks kw (children b) (baseIndent + 4) c1 of (childTree, c2) \<Rightarrow>
                withId (\<lambda>i. CountLoopNode i m childTree tail) c2)
         | KHeadLoop m \<Rightarrow>
             (case mergeBlocks kw (children b) (baseIndent + 4) c1 of (childTree, c2) \<Rightarrow>
                withId (\<lambda>i. HeadLoopNode i m childTree tail) c2)
         | KFunction fname ps \<Rightarrow>
             (case mergeBlocks kw (children b) (baseIndent + 4) c1 of (childTree, c2) \<Rightarrow>
                withId (\<lambda>i. FunctionNode i fname (parametersOf ps) childTree tail) c2)
         | KSwitch rawVar \<Rightarrow>
             (case caseLoop kw (baseIndent + 4) (groupBlocks (children b) (baseIndent + 4)) c1
              of (cases, dflt, c2) \<Rightarrow> finishSwitch kw rawVar cases dflt tail c2)
         | KInput m \<Rightarrow> withId (\<lambda>i. InputNode i m tail) c1
         | KOutput m \<Rightarrow> withId (\<lambda>i. OutputNode i m tail) c1
         | KTask \<Rightarrow> withId (\<lambda>i. TaskNode i (btext b) tail) c1))"
| "caseLoop kw childIndent [] = (\<lambda>c. ([], None, c))"
| "caseLoop kw childIndent (cb # cbs) = (\<lambda>c.
     case capture1 (reCaseLabel kw (btext cb)) of
       Some m \<Rightarrow>
         (case mergeBlocks kw (children cb) (childIndent + 4) c of (caseBody, c1) \<Rightarrow>
          case caseLoop kw childIndent cbs (snd (uid c1)) of (cases, dflt, c3) \<Rightarrow>
            (InsertCase (Some (fst (uid c1))) (unquote m) caseBody # cases, dflt, c3))
     | None \<Rightarrow>
         if reElseBlock kw (btext cb) then
           (case mergeBlocks kw (children cb) (childIndent + 4) c of (caseBody, c1) \<Rightarrow>
            case caseLoop kw childIndent cbs (snd (uid c1)) of (cases, dflt, c3) \<Rightarrow>
              (cases,
               Some (case dflt of Some d \<Rightarrow> d
                     | None \<Rightarrow> InsertCase (Some (fst (uid c1))) (kw_default kw) caseBody),
               c3))
         else caseLoop kw childIndent cbs c)"
  by pat_completeness auto

termination
proof (relation "measure (\<lambda>x. case x of
            Inl (kw, lines, b) \<Rightarrow> 2 * length lines + 1
          | Inr (Inl (kw, b, pairs)) \<Rightarrow> 2 * blocksSize (map fst pairs)
          | Inr (Inr (kw, b, cbs)) \<Rightarrow> 2 * blocksSize cbs)", goal_cases)
  case (2 kw lines baseIndent)
  then show ?case using blocksSize_groupBlocks[of lines baseIndent] by (simp add: map_fst_prescan)
next
  case (5 kw baseIndent b skip rest)
  then show ?case using nextChildren_size[of rest] by simp
next
  case (7 kw baseIndent b skip rest)
  then show ?case using nextChildren_size[of rest] by simp
next
  case (13 kw baseIndent b skip rest)
  then show ?case using blocksSize_groupBlocks[of "children b" "baseIndent + 4"] by simp
qed simp_all


text \<open>\<open>parsePseudocode\<close> resets the counter, takes the least indent as the base and returns
  the root of the chain.\<close>

definition minIndent :: "line list \<Rightarrow> nat" where
  "minIndent lines = fold min (map lindent (tl lines)) (lindent (hd lines))"

definition parsePseudocode :: "string \<Rightarrow> keywordMap \<Rightarrow> node" where
  "parsePseudocode source kw =
     (let lines = tokenize source
      in if lines = [] then fst (makeInsert placeholder 0)
         else fst (mergeBlocks kw lines (minIndent lines) 0))"

subsection \<open>Serializer (tree to pseudocode)\<close>

text \<open>\<open>columnWidths.join(", ")\<close> prints numbers; how a number is printed is the parameter
  \<open>fmt\<close>.\<close>

definition colWidthSuffix :: "(real \<Rightarrow> string) \<Rightarrow> real list option \<Rightarrow> string" where
  "colWidthSuffix fmt cw =
     (case cw of None \<Rightarrow> []
      | Some ws \<Rightarrow> if ws \<noteq> [] then '' ['' @ joinWith '', '' (map fmt ws) @ '']'' else [])"

text \<open>\<open>c.text\<close> of an entry of \<open>cases\<close>; a marker has none, and string concatenation prints
  \<open>undefined\<close>.\<close>

fun labelText :: "node \<Rightarrow> string" where
  "labelText (TaskNode i t f) = t"
| "labelText (InputNode i t f) = t"
| "labelText (OutputNode i t f) = t"
| "labelText (BranchNode i t cw tc fc f) = t"
| "labelText (CaseNode i t cw don dn cs f) = t"
| "labelText (InsertCase i t f) = t"
| "labelText (HeadLoopNode i t ch f) = t"
| "labelText (CountLoopNode i t ch f) = t"
| "labelText (FootLoopNode i t ch f) = t"
| "labelText (FunctionNode i t ps ch f) = t"
| "labelText (TryCatchNode i t tc cc f) = t"
| "labelText n = ''undefined''"

function (sequential) serialize ::
    "keywordMap \<Rightarrow> (real \<Rightarrow> string) \<Rightarrow> node \<Rightarrow> nat \<Rightarrow> js_error + string list"
  and serializeCases ::
    "keywordMap \<Rightarrow> (real \<Rightarrow> string) \<Rightarrow> node list \<Rightarrow> nat \<Rightarrow> js_error + string list"
where
  "serialize kw fmt Null level = Inr []"
| "serialize kw fmt (InsertNode i f) level = serialize kw fmt f level"
| "serialize kw fmt (Placeholder i) level = Inr []"
| "serialize kw fmt (TaskNode i text f) level =
     catE (Inr [indent level @ text]) (serialize kw fmt f level)"
| "serialize kw fmt (InputNode i text f) level =
     catE (Inr [indent level @ kw_input kw @ ''('' @ [dq] @ text @ [dq] @ '')''])
          (serialize kw fmt f level)"
| "serialize kw fmt (OutputNode i text f) level =
     catE (Inr [indent level @ kw_output kw @ ''('' @ [dq] @ text @ [dq] @ '')''])
          (serialize kw fmt f level)"
| "serialize kw fmt (BranchNode i text cw tc fc f) level =
     catE (Inr [indent level @ kw_if kw @ '' '' @ text @ colWidthSuffix fmt cw @ '':''])
    (catE (serialize kw fmt tc (level + 1))
    (catE (Inr [indent level @ kw_else kw @ '':''])
    (catE (serialize kw fmt fc (level + 1))
          (serialize kw fmt f level))))"
| "serialize kw fmt (CaseNode i text cw don dn cs f) level =
     catE (Inr [indent level @ kw_switch kw @ '' '' @ text @ colWidthSuffix fmt cw @ '':''])
    (catE (serializeCases kw fmt cs level)
    (catE (if don \<and> dn \<noteq> Null
           then catE (Inr [indent (level + 1) @ kw_else kw @ '':''])
                     (serialize kw fmt (followElement dn) (level + 2))
           else Inr [])
          (serialize kw fmt f level)))"
| "serialize kw fmt (HeadLoopNode i text ch f) level =
     catE (Inr [indent level @ kw_repeat kw @ '' '' @ kw_while kw @ '' '' @ text @ '':''])
    (catE (serialize kw fmt ch (level + 1)) (serialize kw fmt f level))"
| "serialize kw fmt (CountLoopNode i text ch f) level =
     catE (Inr [indent level @ kw_repeat kw @ '' '' @ kw_for kw @ '' '' @ text @ '':''])
    (catE (serialize kw fmt ch (level + 1)) (serialize kw fmt f level))"
| "serialize kw fmt (FootLoopNode i text ch f) level =
     catE (Inr [indent level @ kw_repeat kw @ '':''])
    (catE (serialize kw fmt ch (level + 1))
    (catE (Inr [indent level @ kw_while kw @ '' '' @ text])
          (serialize kw fmt f level)))"
| "serialize kw fmt (FunctionNode i text ps ch f) level =
     catE (Inr [indent level @ kw_function kw @ '' '' @ text @ ''(''
                 @ joinWith '', '' (map parName ps) @ ''):''])
    (catE (serialize kw fmt ch (level + 1)) (serialize kw fmt f level))"
| "serialize kw fmt (TryCatchNode i text tc cc f) level =
     catE (Inr [indent level @ kw_try kw @ '':''])
    (catE (serialize kw fmt tc (level + 1))
    (catE (Inr [indent level @ kw_catch kw @ '' '' @ text @ '':''])
    (catE (serialize kw fmt cc (level + 1))
          (serialize kw fmt f level))))"
| "serialize kw fmt (InsertCase i text f) level = Inr []"
| "serializeCases kw fmt [] level = Inr []"
| "serializeCases kw fmt (Null # cs) level = Inl TypeError"
| "serializeCases kw fmt (c # cs) level =
     catE (Inr [indent (level + 1) @ kw_case kw @ '' '' @ labelText c @ '':''])
    (catE (serialize kw fmt (followElement c) (level + 2))
          (serializeCases kw fmt cs level))"
  by pat_completeness auto

termination
  by (relation "measure (\<lambda>x. case x of
          Inl (kw, fmt, n, level) \<Rightarrow> size n
        | Inr (kw, fmt, cs, level) \<Rightarrow> size_list size cs)")
     (auto simp: less_Suc_eq_le size_followElement)

definition treeToPseudocode :: "(real \<Rightarrow> string) \<Rightarrow> node \<Rightarrow> keywordMap \<Rightarrow> js_error + string" where
  "treeToPseudocode fmt tree kw =
     (case serialize kw fmt tree 0 of
        Inl e \<Rightarrow> Inl e
      | Inr lines \<Rightarrow> Inr (joinWith [nl] lines))"

subsection \<open>Trees up to identifiers, chains\<close>

fun eraseIds :: "node \<Rightarrow> node" where
  "eraseIds Null = Null"
| "eraseIds (Placeholder i) = Placeholder None"
| "eraseIds (InsertNode i f) = InsertNode None (eraseIds f)"
| "eraseIds (TaskNode i t f) = TaskNode None t (eraseIds f)"
| "eraseIds (InputNode i t f) = InputNode None t (eraseIds f)"
| "eraseIds (OutputNode i t f) = OutputNode None t (eraseIds f)"
| "eraseIds (BranchNode i t cw tc fc f) =
     BranchNode None t cw (eraseIds tc) (eraseIds fc) (eraseIds f)"
| "eraseIds (CaseNode i t cw don dn cs f) =
     CaseNode None t cw don (eraseIds dn) (map eraseIds cs) (eraseIds f)"
| "eraseIds (InsertCase i t f) = InsertCase None t (eraseIds f)"
| "eraseIds (HeadLoopNode i t ch f) = HeadLoopNode None t (eraseIds ch) (eraseIds f)"
| "eraseIds (CountLoopNode i t ch f) = CountLoopNode None t (eraseIds ch) (eraseIds f)"
| "eraseIds (FootLoopNode i t ch f) = FootLoopNode None t (eraseIds ch) (eraseIds f)"
| "eraseIds (FunctionNode i t ps ch f) = FunctionNode None t ps (eraseIds ch) (eraseIds f)"
| "eraseIds (TryCatchNode i t tc cc f) =
     TryCatchNode None t (eraseIds tc) (eraseIds cc) (eraseIds f)"



text \<open>Every \<open>columnWidths\<close> array in the tree has an entry.\<close>

fun widthsNonEmpty :: "node \<Rightarrow> bool" where
  "widthsNonEmpty Null = True"
| "widthsNonEmpty (Placeholder i) = True"
| "widthsNonEmpty (InsertNode i f) = widthsNonEmpty f"
| "widthsNonEmpty (TaskNode i t f) = widthsNonEmpty f"
| "widthsNonEmpty (InputNode i t f) = widthsNonEmpty f"
| "widthsNonEmpty (OutputNode i t f) = widthsNonEmpty f"
| "widthsNonEmpty (BranchNode i t cw tc fc f) =
     (cw \<noteq> Some [] \<and> widthsNonEmpty tc \<and> widthsNonEmpty fc \<and> widthsNonEmpty f)"
| "widthsNonEmpty (CaseNode i t cw don dn cs f) =
     (cw \<noteq> Some [] \<and> widthsNonEmpty dn \<and> list_all widthsNonEmpty cs \<and> widthsNonEmpty f)"
| "widthsNonEmpty (InsertCase i t f) = widthsNonEmpty f"
| "widthsNonEmpty (HeadLoopNode i t ch f) = (widthsNonEmpty ch \<and> widthsNonEmpty f)"
| "widthsNonEmpty (CountLoopNode i t ch f) = (widthsNonEmpty ch \<and> widthsNonEmpty f)"
| "widthsNonEmpty (FootLoopNode i t ch f) = (widthsNonEmpty ch \<and> widthsNonEmpty f)"
| "widthsNonEmpty (FunctionNode i t ps ch f) = (widthsNonEmpty ch \<and> widthsNonEmpty f)"
| "widthsNonEmpty (TryCatchNode i t tc cc f) =
     (widthsNonEmpty tc \<and> widthsNonEmpty cc \<and> widthsNonEmpty f)"

text \<open>The result of the three parser functions with the identifiers erased. It does not
  depend on the value of the counter (lemma \<open>shape_independent\<close> below).\<close>

definition mergeShape :: "keywordMap \<Rightarrow> line list \<Rightarrow> nat \<Rightarrow> node" where
  "mergeShape kw lines baseIndent = eraseIds (fst (mergeBlocks kw lines baseIndent 0))"

definition loopShape :: "keywordMap \<Rightarrow> nat \<Rightarrow> (block \<times> bool) list \<Rightarrow> node" where
  "loopShape kw baseIndent pairs = eraseIds (fst (mergeLoop kw baseIndent pairs 0))"

definition caseShapes :: "keywordMap \<Rightarrow> nat \<Rightarrow> block list \<Rightarrow> node list \<times> node option" where
  "caseShapes kw childIndent cbs =
     (map eraseIds (fst (caseLoop kw childIndent cbs 0)),
      map_option eraseIds (fst (snd (caseLoop kw childIndent cbs 0))))"

text \<open>The content node a block that is not skipped is turned into, identifiers erased.\<close>

definition stepShape :: "keywordMap \<Rightarrow> nat \<Rightarrow> block \<Rightarrow> (block \<times> bool) list \<Rightarrow> node" where
  "stepShape kw baseIndent b rest =
     (let tail = loopShape kw baseIndent rest;
          body = mergeShape kw (children b) (baseIndent + 4);
          nextBody = mergeShape kw (nextChildren rest) (baseIndent + 4);
          cs = caseShapes kw (baseIndent + 4) (groupBlocks (children b) (baseIndent + 4))
      in case classify kw (btext b) (nextText rest) of
           KTryCatch \<Rightarrow> TryCatchNode None (catchTextOf kw (nextText rest)) body nextBody tail
         | KIfElse \<Rightarrow> BranchNode None (fst (branchCond kw (btext b))) (snd (branchCond kw (btext b)))
                        body nextBody tail
         | KIf \<Rightarrow> BranchNode None (fst (branchCond kw (btext b))) (snd (branchCond kw (btext b)))
                    body (InsertNode None (Placeholder None)) tail
         | KFootLoop \<Rightarrow> FootLoopNode None (footCondOf kw (nextText rest)) body tail
         | KCountLoop m \<Rightarrow> CountLoopNode None m body tail
         | KHeadLoop m \<Rightarrow> HeadLoopNode None m body tail
         | KFunction fname ps \<Rightarrow> FunctionNode None fname (parametersOf ps) body tail
         | KSwitch rawVar \<Rightarrow>
             CaseNode None (fst (extractColumnWidths rawVar)) (snd (extractColumnWidths rawVar))
               (snd cs \<noteq> None)
               (case snd cs of Some d \<Rightarrow> d
                | None \<Rightarrow> InsertCase None (kw_default kw) (InsertNode None (Placeholder None)))
               (fst cs) tail
         | KInput m \<Rightarrow> InputNode None m tail
         | KOutput m \<Rightarrow> OutputNode None m tail
         | KTask \<Rightarrow> TaskNode None (btext b) tail)"
section \<open>Properties of the structural editor\<close>

subsection \<open>Facts about the traversal helpers\<close>

lemma orElse_Some_iff: "orElse a b = Some p \<longleftrightarrow> a = Some p \<or> (a = None \<and> b = Some p)"
  by (cases a) auto

lemma orElse_None_iff: "orElse a b = None \<longleftrightarrow> a = None \<and> b = None"
  by (cases a) auto

lemma via_Some_iff: "via k r = Some p \<longleftrightarrow> (\<exists>q. r = Some q \<and> p = k # q)"
  by (auto simp: via_def)

lemma via_None_iff: "via k r = None \<longleftrightarrow> r = None"
  by (auto simp: via_def)

lemma findNode_absent: "\<forall>ty. (x, ty) \<notin># taggedIds T \<Longrightarrow> findNode T x = None"
proof (induction T)
  case (CaseNode i t cw don dn cs f)
  have "\<And>c. c \<in> set cs \<Longrightarrow> findNode c x = None"
    using CaseNode by (auto split: option.splits simp: in_multiset_in_set dest!: split_list)
  then have "firstSome (map (\<lambda>c. findNode c x) cs) = None"
    by (induction cs) auto
  with CaseNode show ?case by (auto split: option.splits)
qed (auto split: option.splits)

lemma findParentCases_Some:
  "findParentCases k cs x = Some p \<Longrightarrow>
     \<exists>j q. p = Cases (k + j) # q \<and> j < length cs \<and> findParent (cs ! j) x = Some q"
proof (induction cs arbitrary: k)
  case Nil then show ?case by simp
next
  case (Cons c cs)
  from Cons.prems consider (a) q where "findParent c x = Some q" "p = Cases k # q"
    | (b) "findParentCases (Suc k) cs x = Some p"
    by (auto simp: orElse_Some_iff via_Some_iff)
  then show ?case
  proof cases
    case a then show ?thesis by (intro exI[of _ 0] exI[of _ q]) simp
  next
    case b
    from Cons.IH[OF b] obtain j q where "p = Cases (Suc k + j) # q" "j < length cs"
      "findParent (cs ! j) x = Some q" by blast
    then show ?thesis by (intro exI[of _ "Suc j"] exI[of _ q]) simp
  qed
qed

lemma findParentCases_None:
  "(\<And>c. c \<in> set cs \<Longrightarrow> findParent c x = None) \<Longrightarrow> findParentCases k cs x = None"
  by (induction cs arbitrary: k) (auto simp: via_def)

lemma findParent_absent: "\<forall>ty. (x, ty) \<notin># taggedIds T \<Longrightarrow> findParent T x = None"
proof (induction T)
  case (CaseNode i t cw don dn cs f)
  have "\<And>c. c \<in> set cs \<Longrightarrow> findParent c x = None"
    using CaseNode by (auto split: option.splits simp: in_multiset_in_set dest!: split_list)
  then have "findParentCases 0 cs x = None" by (rule findParentCases_None)
  with CaseNode show ?case by (auto split: option.splits simp: via_def)
qed (auto split: option.splits simp: via_def)

lemma sum_list_update_count:
  "j < length cs \<Longrightarrow>
   count (sum_list (map g (cs[j := c']))) a + count (g (cs ! j)) a
     = count (g c') a + count (sum_list (map g cs)) (a::'b)"
proof (induction cs arbitrary: j)
  case Nil then show ?case by simp
next
  case (Cons c cs) then show ?case by (cases j) auto
qed

lemma count_setAt:
  "findParent T x = Some p \<Longrightarrow>
   count (taggedIds (setAt p v T)) a + count (taggedIds (getAt p T)) a
     = count (taggedIds v) a + count (taggedIds T) a"
proof (induction T arbitrary: p)
  case (CaseNode i t cw don dn cs f)
  show ?case
  proof (cases "i = Some x")
    case True with CaseNode.prems show ?thesis by simp
  next
    case False
    with CaseNode.prems consider
        (fo) q where "findParent f x = Some q" "p = FollowElement # q"
      | (ca) "findParentCases 0 cs x = Some p"
      | (de) q where "findParent dn x = Some q" "p = DefaultNode # q"
      by (auto simp: orElse_Some_iff via_Some_iff)
    then show ?thesis
    proof cases
      case fo with CaseNode.IH(3)[OF fo(1)] show ?thesis by simp
    next
      case de with CaseNode.IH(1)[OF de(1)] show ?thesis by simp
    next
      case ca
      from findParentCases_Some[OF ca] obtain j q where
        jq: "p = Cases j # q" "j < length cs" "findParent (cs ! j) x = Some q" by auto
      have "cs ! j \<in> set cs" using jq by simp
      from CaseNode.IH(2)[OF this jq(3)]
      have ih: "count (taggedIds (setAt q v (cs ! j))) a + count (taggedIds (getAt q (cs ! j))) a
        = count (taggedIds v) a + count (taggedIds (cs ! j)) a" .
      from sum_list_update_count[OF jq(2), of taggedIds "setAt q v (cs ! j)" a]
      show ?thesis using jq ih by simp
    qed
  qed
qed (auto simp: orElse_Some_iff via_Some_iff split: if_splits)


lemma nodeIds_notin: "x \<notin># nodeIds T \<Longrightarrow> \<forall>ty. (x, ty) \<notin># taggedIds T"
  by (force simp: nodeIds_def)

lemma snd_cloneTree: "snd (cloneTree T) = T"
  by (cases T) auto

lemma cloneTree_eq: "cloneTree T = (fst (cloneTree T), T)"
  by (cases T) auto

lemma findParent_node_id:
  "findParent T x = Some p \<Longrightarrow> node_id (getAt p T) = Some x"
proof (induction T arbitrary: p)
  case (CaseNode i t cw don dn cs f)
  show ?case
  proof (cases "i = Some x")
    case True with CaseNode.prems show ?thesis by simp
  next
    case False
    with CaseNode.prems consider
        (fo) q where "findParent f x = Some q" "p = FollowElement # q"
      | (ca) "findParentCases 0 cs x = Some p"
      | (de) q where "findParent dn x = Some q" "p = DefaultNode # q"
      by (auto simp: orElse_Some_iff via_Some_iff)
    then show ?thesis
    proof cases
      case fo with CaseNode.IH(3)[OF fo(1)] show ?thesis by simp
    next
      case de with CaseNode.IH(1)[OF de(1)] show ?thesis by simp
    next
      case ca
      from findParentCases_Some[OF ca] obtain j q where
        jq: "p = Cases j # q" "j < length cs" "findParent (cs ! j) x = Some q" by auto
      have "cs ! j \<in> set cs" using jq by simp
      from CaseNode.IH(2)[OF this jq(3)] show ?thesis using jq by simp
    qed
  qed
qed (auto simp: orElse_Some_iff via_Some_iff split: if_splits)

lemma firstSome_Some: "firstSome xs = Some y \<Longrightarrow> Some y \<in> set xs"
  by (induction xs) (auto simp: orElse_Some_iff)

lemma findNode_Some:
  "findNode T x = Some n \<Longrightarrow> node_id n = Some x \<and> (x, node_type n) \<in># taggedIds T"
proof (induction T)
  case (CaseNode i t cw don dn cs f)
  show ?case
  proof (cases "i = Some x")
    case True with CaseNode.prems show ?thesis by auto
  next
    case False
    with CaseNode.prems consider
        (fo) "findNode f x = Some n"
      | (ca) "firstSome (map (\<lambda>c. findNode c x) cs) = Some n"
      | (de) "findNode dn x = Some n"
      by (auto simp: orElse_Some_iff)
    then show ?thesis
    proof cases
      case fo with CaseNode.IH(3) show ?thesis by simp
    next
      case de with CaseNode.IH(1) show ?thesis by simp
    next
      case ca
      from firstSome_Some[OF ca] obtain c where c: "c \<in> set cs" "findNode c x = Some n" by auto
      from CaseNode.IH(2)[OF c] have "node_id n = Some x" "(x, node_type n) \<in># taggedIds c" by auto
      moreover have "taggedIds c \<subseteq># sum_list (map taggedIds cs)"
        using c(1) by (induction cs) (auto intro: subset_mset.add_increasing)
      ultimately show ?thesis by (auto dest: mset_subset_eqD)
    qed
  qed
qed (auto simp: orElse_Some_iff split: if_splits)

lemma taggedIds_setAt:
  assumes "findParent T x = Some p"
  shows "taggedIds (setAt p v T) + taggedIds (getAt p T) = taggedIds v + taggedIds T"
  by (rule multiset_eqI) (simp add: count_setAt[OF assms])

lemma nodeIds_setAt:
  assumes "findParent T x = Some p"
  shows "nodeIds (setAt p v T) + nodeIds (getAt p T) = nodeIds v + nodeIds T"
  using arg_cong[OF taggedIds_setAt[OF assms, of v], of "image_mset fst"]
  by (simp add: nodeIds_def)

lemma taggedIds_follow_le:
  "taggedIds (orPlaceholder (followElement n)) \<subseteq># taggedIds n"
  by (cases n) (auto simp: orPlaceholder_def split: option.splits)

lemma nodeIds_follow_less:
  "node_id n = Some s \<Longrightarrow> add_mset s (nodeIds (orPlaceholder (followElement n))) \<subseteq># nodeIds n"
  by (cases n) (auto simp: orPlaceholder_def nodeIds_def)

lemma two_tags_count:
  assumes "(x, a) \<in># M" "(x, b) \<in># M" "a \<noteq> b"
  shows "2 \<le> count (image_mset fst M) x"
proof -
  from assms(1) obtain M1 where M1: "M = add_mset (x, a) M1" by (auto dest: multi_member_split)
  with assms(2,3) have "(x, b) \<in># M1" by auto
  then obtain M2 where "M1 = add_mset (x, b) M2" by (auto dest: multi_member_split)
  with M1 show ?thesis by simp
qed


subsection \<open>Editing with an identifier that is not in the tree\<close>

text \<open>
  Claim C8, as the code has it, for the trees of this model: trees whose
  \<open>columnWidths\<close> hold finite numbers only, the values the round trip through JSON
  gives back as they were. When the identifier occurs nowhere in such a tree,
  \<open>insertAt\<close>, \<open>removeNode\<close> and \<open>editText\<close> throw nothing, leave the counter alone and
  return the deep clone made on entry: a tree equal to the input field by field. The
  returned reference is the input's own only for the missing tree \<open>null\<close>; for every
  real tree it is a newly allocated object.
\<close>

theorem silent_noop_returns_clone:
  assumes "x \<notin># nodeIds T"
  shows "insertAt now c T x ty = Inr (fst (cloneTree T), T, c)
       \<and> removeNode c T x = Inr (fst (cloneTree T), T, c)
       \<and> editText c T x s = Inr (fst (cloneTree T), T, c)
       \<and> (T \<noteq> Null \<longrightarrow> fst (cloneTree T) = NewObject)"
proof -
  from assms have a: "\<forall>ty. (x, ty) \<notin># taggedIds T" by (rule nodeIds_notin)
  have "findNode T x = None" "findParent T x = None"
    using a by (rule findNode_absent, rule findParent_absent)
  then show ?thesis
    by (cases T) (simp_all add: insertAt_def removeNode_def editText_def)
qed

theorem silent_noop_returns_clone_witness:
  "''zz'' \<notin># nodeIds (InsertNode (Some ''a'') (Placeholder None))
   \<and> insertAt (\<lambda>k. 0) 0 (InsertNode (Some ''a'') (Placeholder None)) ''zz'' ''TaskNode''
       = Inr (NewObject, InsertNode (Some ''a'') (Placeholder None), 0)
   \<and> removeNode 0 (InsertNode (Some ''a'') (Placeholder None)) ''zz''
       = Inr (NewObject, InsertNode (Some ''a'') (Placeholder None), 0)
   \<and> editText 0 (InsertNode (Some ''a'') (Placeholder None)) ''zz'' ''t''
       = Inr (NewObject, InsertNode (Some ''a'') (Placeholder None), 0)"
proof -
  have h: "''zz'' \<notin># nodeIds (InsertNode (Some ''a'') (Placeholder None))"
    by (simp add: nodeIds_def)
  from silent_noop_returns_clone[OF h, of "\<lambda>k. 0" 0 "''TaskNode''" "''t''"] h
  show ?thesis by simp
qed

text \<open>
  The claim as written has the caller recognise the no-op by comparing the output with
  the input by reference. The output of a no-op is a fresh clone, never the input object.
\<close>

theorem silent_noop_identity_counterexample:
  "''zz'' \<notin># nodeIds (InsertNode (Some ''a'') (Placeholder None))
   \<and> insertAt (\<lambda>k. 0) 0 (InsertNode (Some ''a'') (Placeholder None)) ''zz'' ''TaskNode''
       \<noteq> Inr (InputObject, InsertNode (Some ''a'') (Placeholder None), 0)"
  by (simp add: nodeIds_def insertAt_def)

subsection \<open>Moving a node onto a Placeholder\<close>

lemma findParentCases_None_all:
  "findParentCases k cs x = None \<Longrightarrow> c \<in> set cs \<Longrightarrow> findParent c x = None"
  by (induction cs arbitrary: k) (auto simp: orElse_None_iff via_None_iff)

lemma findParent_None_absent: "findParent T x = None \<Longrightarrow> (x, ty) \<notin># taggedIds T"
proof (induction T)
  case (CaseNode i t cw don dn cs f)
  from CaseNode.prems have ni: "i \<noteq> Some x"
    and fo: "findParent f x = None"
    and ca: "findParentCases 0 cs x = None"
    and de: "findParent dn x = None"
    by (auto simp: orElse_None_iff via_None_iff split: if_splits)
  have "\<And>c. c \<in> set cs \<Longrightarrow> (x, ty) \<notin># taggedIds c"
    using CaseNode.IH(2) findParentCases_None_all[OF ca] by blast
  then have "(x, ty) \<notin># sum_list (map taggedIds cs)"
    by (induction cs) auto
  with ni CaseNode.IH(1)[OF de] CaseNode.IH(3)[OF fo] show ?case
    by (auto split: option.splits)
qed (auto simp: orElse_None_iff via_None_iff split: if_splits option.splits)

lemma findParent_present: "x \<in># nodeIds T \<Longrightarrow> \<exists>p. findParent T x = Some p"
proof (rule ccontr)
  assume x: "x \<in># nodeIds T" and "\<nexists>p. findParent T x = Some p"
  then have "findParent T x = None" by simp
  then have "\<And>ty. (x, ty) \<notin># taggedIds T" by (rule findParent_None_absent)
  with x show False by (auto simp: nodeIds_def)
qed

lemma findParentCases_not_root: "findParentCases k cs x \<noteq> Some []"
  using findParentCases_Some[of k cs x "[]"] by auto

lemma findParent_root: "findParent T x = Some [] \<Longrightarrow> node_id T = Some x"
  by (cases T)
     (auto simp: orElse_Some_iff via_Some_iff findParentCases_not_root split: if_splits)

lemma moveNode_detach:
  assumes uniq: "uniqueIds T"
    and src: "findParent T s = Some p" "p \<noteq> []"
    and neq: "s \<noteq> t"
    and tgt: "findNode T t = Some (Placeholder pid)"
  shows "moveNode c T s t
           = Inr (NewObject, setAt p (orPlaceholder (followElement (getAt p T))) T, c)
         \<and> s \<notin># nodeIds (setAt p (orPlaceholder (followElement (getAt p T))) T)"
proof -
  let ?n = "getAt p T"
  let ?v = "orPlaceholder (followElement ?n)"
  let ?root1 = "setAt p ?v T"
  have nid: "node_id ?n = Some s" by (rule findParent_node_id[OF src(1)])
  then have nnull: "?n \<noteq> Null" by auto
  have Tnull: "T \<noteq> Null" using src(1) by auto
  then have clone: "cloneTree T = (NewObject, T)" by (cases T) auto
  have tagged: "taggedIds ?root1 + taggedIds ?n = taggedIds ?v + taggedIds T"
    by (rule taggedIds_setAt[OF src(1)])
  have sub: "taggedIds ?root1 \<subseteq># taggedIds T"
  proof -
    from taggedIds_follow_le[of ?n] obtain D where D: "taggedIds ?n = taggedIds ?v + D"
      by (auto simp: mset_subset_eq_exists_conv)
    with tagged have "taggedIds ?root1 + D = taggedIds T" by (simp add: ac_simps)
    then show ?thesis by (metis mset_subset_eq_add_left)
  qed
  have gone: "s \<notin># nodeIds ?root1"
  proof
    assume "s \<in># nodeIds ?root1"
    then have "1 \<le> count (nodeIds ?root1) s" by simp
    moreover from nodeIds_follow_less[OF nid]
    have "count (nodeIds ?v) s + 1 \<le> count (nodeIds ?n) s"
      by (auto dest!: mset_subset_eq_count[where a = s])
    moreover have "count (nodeIds ?root1) s + count (nodeIds ?n) s
        = count (nodeIds ?v) s + count (nodeIds T) s"
      using arg_cong[OF nodeIds_setAt[OF src(1), of ?v], of "\<lambda>M. count M s"] by simp
    moreover have "count (nodeIds T) s \<le> 1" using uniq by (simp add: uniqueIds_def)
    ultimately show False by linarith
  qed
  have notins: "findNode ?root1 t \<noteq> Some (InsertNode ti tf)" for ti tf
  proof
    assume "findNode ?root1 t = Some (InsertNode ti tf)"
    from findNode_Some[OF this] have "(t, ''InsertNode'') \<in># taggedIds ?root1" by simp
    with sub have a: "(t, ''InsertNode'') \<in># taggedIds T" by (auto dest: mset_subset_eqD)
    from findNode_Some[OF tgt] have b: "(t, ''Placeholder'') \<in># taggedIds T" by simp
    have "(''InsertNode''::string) \<noteq> ''Placeholder''" by simp
    from two_tags_count[OF a b this] have "2 \<le> count (nodeIds T) t" by (simp add: nodeIds_def)
    moreover have "count (nodeIds T) t \<le> 1" using uniq by (simp add: uniqueIds_def)
    ultimately show False by linarith
  qed
  have "moveNode c T s t = Inr (NewObject, ?root1, c)"
  proof (cases "findNode ?root1 t")
    case None
    then show ?thesis using src neq nnull clone by (simp add: moveNode_def)
  next
    case (Some target)
    show ?thesis
    proof (cases target)
      case (InsertNode ti tf)
      with Some notins show ?thesis by blast
    qed (use Some src neq nnull clone in \<open>simp_all add: moveNode_def\<close>)
  qed
  with gone show ?thesis by simp
qed


text \<open>
  Claim C10, as the code has it. In a tree with unique identifiers, let \<open>s\<close> be the
  identifier of a node of the tree that is not its root, and let \<open>t \<noteq> s\<close> be the
  identifier of a \<open>Placeholder\<close>. Then \<open>moveNode\<close> throws nothing and returns the clone
  in which the slot the source was found in holds the source's \<open>followElement\<close> (a
  bare \<open>Placeholder\<close> when there is none) and nothing else has changed: the source is
  detached and not inserted again, and its identifier occurs nowhere in the result.
\<close>

theorem moveNode_drops_on_placeholder:
  assumes "uniqueIds T"
    and "s \<in># nodeIds T"
    and "node_id T \<noteq> Some s"
    and "s \<noteq> t"
    and "findNode T t = Some (Placeholder pid)"
  shows "\<exists>p. findParent T s = Some p
           \<and> moveNode c T s t
               = Inr (NewObject, setAt p (orPlaceholder (followElement (getAt p T))) T, c)
           \<and> s \<notin># nodeIds (setAt p (orPlaceholder (followElement (getAt p T))) T)"
proof -
  from assms(2) obtain p where p: "findParent T s = Some p"
    using findParent_present by blast
  with assms(3) have "p \<noteq> []" using findParent_root by blast
  from moveNode_detach[OF assms(1) p this assms(4,5)] p show ?thesis by blast
qed

theorem moveNode_drops_on_placeholder_witness:
  "moveNode 0 (InsertNode (Some ''r'') (TaskNode (Some ''s'') ''a''
       (InsertNode (Some ''i'') (Placeholder (Some ''t''))))) ''s'' ''t''
     = Inr (NewObject, InsertNode (Some ''r'') (InsertNode (Some ''i'') (Placeholder (Some ''t''))), 0)
   \<and> ''s'' \<notin># nodeIds (InsertNode (Some ''r'') (InsertNode (Some ''i'') (Placeholder (Some ''t''))))"
proof -
  let ?T = "InsertNode (Some ''r'') (TaskNode (Some ''s'') ''a''
       (InsertNode (Some ''i'') (Placeholder (Some ''t''))))"
  have h1: "uniqueIds ?T" by (auto simp add: uniqueIds_def nodeIds_def)
  have h2: "''s'' \<in># nodeIds ?T" by (simp add: nodeIds_def)
  have h3: "node_id ?T \<noteq> Some ''s''" by simp
  have h4: "''s'' \<noteq> ''t''" by simp
  have h5: "findNode ?T ''t'' = Some (Placeholder (Some ''t''))" by simp
  have h6: "findParent ?T ''s'' = Some [FollowElement]" by (simp add: via_def)
  from moveNode_drops_on_placeholder[OF h1 h2 h3 h4 h5, of 0] h6
  show ?thesis by (simp add: orPlaceholder_def)
qed

text \<open>
  The claim as written also covers a source that is the root of the tree. There
  \<open>findParent\<close> answers with the parent \<open>null\<close> and the key \<open>null\<close>, and reading
  \<open>srcInfo.parent[srcInfo.key]\<close> throws a \<open>TypeError\<close>: no tree is returned.
\<close>

theorem moveNode_root_source_counterexample:
  "uniqueIds (InsertNode (Some ''s'') (Placeholder (Some ''t'')))
   \<and> ''s'' \<in># nodeIds (InsertNode (Some ''s'') (Placeholder (Some ''t'')))
   \<and> ''s'' \<noteq> ''t''
   \<and> findNode (InsertNode (Some ''s'') (Placeholder (Some ''t''))) ''t''
       = Some (Placeholder (Some ''t''))
   \<and> moveNode 0 (InsertNode (Some ''s'') (Placeholder (Some ''t''))) ''s'' ''t'' = Inl TypeError"
  by (auto simp add: uniqueIds_def nodeIds_def moveNode_def)
section \<open>Properties of the code generator\<close>

lemma generateCode_unknown_key:
  "lookupTranslations (toLowerCase lang) = None \<Longrightarrow>
   generateCode tree lang = Inl (UnsupportedLanguage
     (''Unsupported language: '' @ lang @ ''. Supported: python, java, javascript''))"
  by (simp add: generateCode_def)

text \<open>
  Claim C7 at the identifier \<open>constructor\<close>. It is none of \<open>python\<close>, \<open>java\<close>,
  \<open>javascript\<close>, yet \<open>TRANSLATIONS["constructor"]\<close> is the inherited, truthy
  \<open>Object\<close>, so the guard does not throw the "Unsupported language" error: a tree with a
  statement fails later with a TypeError that names nothing, and an empty tree yields
  the empty text without any error.
\<close>

theorem generateCode_constructor_not_rejected:
  "toLowerCase ''constructor'' \<notin> {''python'', ''java'', ''javascript''}
   \<and> generateCode (InsertNode (Some ''a'') (TaskNode (Some ''b'') ''x'' (InsertNode (Some ''c'') Null)))
        ''constructor'' = Inl TypeError
   \<and> generateCode (InsertNode (Some ''a'') (Placeholder None)) ''constructor'' = Inr []
   \<and> generateCode (InsertNode (Some ''a'') (TaskNode (Some ''b'') ''x'' (InsertNode (Some ''c'') Null)))
        ''cobol'' = Inl (UnsupportedLanguage
          ''Unsupported language: cobol. Supported: python, java, javascript'')"
  by code_simp

section \<open>Properties of the layout\<close>

lemma remain_None: "remain None h = None" by (simp add: remain_def)
lemma insertAvail_None: "insertAvail None h = None" by (simp add: insertAvail_def)
lemma stretchRow_None: "stretchRow None r n = r" by (simp add: stretchRow_def)
lemma extraHeight_None: "extraHeight None h c f = 0" by (simp add: extraHeight_def)

lemma renderNode_height_no_avail:
  "snd (renderNode e n x y w f None) = measureHeight e n f w"
  by (induction n arbitrary: x y w)
     (simp_all add: Let_def remain_None insertAvail_None stretchRow_None extraHeight_None
        statementStretch_def branchChildH_def branchNaturalH_def caseChildH_def caseNaturalH_def
        loopBodyH_def)

subsection \<open>Measuring and placing agree\<close>

text \<open>
  Claim C5. For every node, font size, width and origin, and for every text metric and
  insert-node height, the height returned by \<open>renderNode\<close> without \<open>availH\<close> is the
  height \<open>measureHeight\<close> computes.
\<close>

theorem measure_place_agree:
  "snd (renderNode e n x y w f None) = measureHeight e n f w"
  by (induction n arbitrary: x y w)
     (simp_all add: Let_def remain_None insertAvail_None stretchRow_None extraHeight_None
        statementStretch_def branchChildH_def branchNaturalH_def caseChildH_def caseNaturalH_def
        loopBodyH_def)

theorem measure_place_agree_witness:
  "snd (renderNode \<lparr>measureText = (\<lambda>s fs. 0), insertNodeHeight = 0\<rparr>
          (InsertNode None (BranchNode None ''c'' (Some [0.5, 0.5])
             (InsertNode None (TaskNode None ''a'' (InsertNode None Null)))
             (InsertNode None (Placeholder None)) (InsertNode None Null))) 3 4 100 10 None)
     = measureHeight \<lparr>measureText = (\<lambda>s fs. 0), insertNodeHeight = 0\<rparr>
          (InsertNode None (BranchNode None ''c'' (Some [0.5, 0.5])
             (InsertNode None (TaskNode None ''a'' (InsertNode None Null)))
             (InsertNode None (Placeholder None)) (InsertNode None Null))) 10 100"
  by (rule measure_place_agree)

subsection \<open>Stretching to the available height\<close>

text \<open>
  Claim C6. The comment above \<open>renderNode\<close> promises that with \<open>availH\<close> set ``the last
  visible node stretches its background to fill remaining space'', and the statement
  branch repeats it (``stretch this node's bg if it (or its tail) is the last in a
  column''). The code does not do that. The statement branch adds the whole slack
  \<open>availH - (rowH + followH)\<close> to its own row whatever follows it, so in a column of two
  statements that is given 100 instead of its natural 80 the first box grows from 40 to
  60 and the last one keeps its height 40 and only moves from y = 40 to y = 60. The loop
  branch hands \<open>availH\<close> to nothing but its \<open>followElement\<close>, so a column that ends in a
  loop and is given 100 keeps its natural height 60 and the room below it stays empty.
  Every number in this evaluation is a small integer, so the arithmetic of the model is
  the arithmetic of the program.
\<close>

theorem stretch_grows_first_box_not_last:
  "measureHeight \<lparr>measureText = (\<lambda>s fs. 6 * real (length s)), insertNodeHeight = 0\<rparr> (InsertNode None (TaskNode None ''a'' (InsertNode None (TaskNode None ''b'' (InsertNode None Null))))) 10 100 = 80
   \<and> fst (renderNode \<lparr>measureText = (\<lambda>s fs. 6 * real (length s)), insertNodeHeight = 0\<rparr> (InsertNode None (TaskNode None ''a'' (InsertNode None (TaskNode None ''b'' (InsertNode None Null))))) 0 0 100 10 None)
       = [Bg 0 0 100 40 ''rgb(253, 237, 206)'', Ln 0 0 100 0, Ln 0 0 0 40,
          TextEl ''a'' 8 0 40 10 (Some 84) ''start'',
          Bg 0 40 100 40 ''rgb(253, 237, 206)'', Ln 0 40 100 40, Ln 0 40 0 80,
          TextEl ''b'' 8 40 40 10 (Some 84) ''start'']
   \<and> fst (renderNode \<lparr>measureText = (\<lambda>s fs. 6 * real (length s)), insertNodeHeight = 0\<rparr> (InsertNode None (TaskNode None ''a'' (InsertNode None (TaskNode None ''b'' (InsertNode None Null))))) 0 0 100 10 (Some 100))
       = [Bg 0 0 100 60 ''rgb(253, 237, 206)'', Ln 0 0 100 0, Ln 0 0 0 60,
          TextEl ''a'' 8 0 40 10 (Some 84) ''start'',
          Bg 0 60 100 40 ''rgb(253, 237, 206)'', Ln 0 60 100 60, Ln 0 60 0 100,
          TextEl ''b'' 8 60 40 10 (Some 84) ''start'']
   \<and> measureHeight \<lparr>measureText = (\<lambda>s fs. 6 * real (length s)), insertNodeHeight = 0\<rparr> (InsertNode None (HeadLoopNode None ''c'' (InsertNode None (Placeholder None)) (InsertNode None Null))) 10 100 = 60
   \<and> snd (renderNode \<lparr>measureText = (\<lambda>s fs. 6 * real (length s)), insertNodeHeight = 0\<rparr> (InsertNode None (HeadLoopNode None ''c'' (InsertNode None (Placeholder None)) (InsertNode None Null))) 0 0 100 10 (Some 100)) = 60"
  by code_simp
section \<open>Properties of the parser\<close>

declare mergeBlocks.simps [simp del] mergeLoop.simps(2) [simp del] caseLoop.simps(2) [simp del]

lemma erase_makeInsert: "eraseIds (fst (makeInsert f c)) = InsertNode None (eraseIds f)"
  by (simp add: makeInsert_def)

lemma erase_withId:
  "eraseIds (fst (withId build c)) = InsertNode None (eraseIds (build (Some (fst (uid c)))))"
  by (simp add: withId_def makeInsert_def)

lemma erase_branchWithoutElse:
  "eraseIds (fst (branchWithoutElse kw text tc tail c))
     = InsertNode None (BranchNode None (fst (branchCond kw text)) (snd (branchCond kw text))
         (eraseIds tc) (InsertNode None (Placeholder None)) (eraseIds tail))"
  by (simp add: branchWithoutElse_def makeInsert_def Let_def placeholder_def)

lemma erase_finishSwitch:
  "eraseIds (fst (finishSwitch kw rawVar cases dflt tail c))
     = InsertNode None (CaseNode None (fst (extractColumnWidths rawVar)) (snd (extractColumnWidths rawVar))
         (dflt \<noteq> None)
         (case dflt of Some d \<Rightarrow> eraseIds d
          | None \<Rightarrow> InsertCase None (kw_default kw) (InsertNode None (Placeholder None)))
         (map eraseIds cases) (eraseIds tail))"
  by (cases dflt) (simp_all add: finishSwitch_def withId_def makeInsert_def Let_def placeholder_def)

lemma mergeLoop_Cons:
  "mergeLoop kw baseIndent ((b, skip) # rest) c =
     (let tail = fst (mergeLoop kw baseIndent rest c); c1 = snd (mergeLoop kw baseIndent rest c);
          tc = mergeBlocks kw (children b) (baseIndent + 4) c1;
          nc = mergeBlocks kw (nextChildren rest) (baseIndent + 4) (snd tc)
      in if skip then (tail, c1)
       else
        (case classify kw (btext b) (nextText rest) of
           KTryCatch \<Rightarrow>
             withId (\<lambda>i. TryCatchNode i (catchTextOf kw (nextText rest)) (fst tc) (fst nc) tail) (snd nc)
         | KIfElse \<Rightarrow>
             withId (\<lambda>i. BranchNode i (fst (branchCond kw (btext b))) (snd (branchCond kw (btext b)))
                              (fst tc) (fst nc) tail) (snd nc)
         | KIf \<Rightarrow> branchWithoutElse kw (btext b) (fst tc) tail (snd tc)
         | KFootLoop \<Rightarrow> withId (\<lambda>i. FootLoopNode i (footCondOf kw (nextText rest)) (fst tc) tail) (snd tc)
         | KCountLoop m \<Rightarrow> withId (\<lambda>i. CountLoopNode i m (fst tc) tail) (snd tc)
         | KHeadLoop m \<Rightarrow> withId (\<lambda>i. HeadLoopNode i m (fst tc) tail) (snd tc)
         | KFunction fname ps \<Rightarrow> withId (\<lambda>i. FunctionNode i fname (parametersOf ps) (fst tc) tail) (snd tc)
         | KSwitch rawVar \<Rightarrow>
             (let r = caseLoop kw (baseIndent + 4) (groupBlocks (children b) (baseIndent + 4)) c1
              in finishSwitch kw rawVar (fst r) (fst (snd r)) tail (snd (snd r)))
         | KInput m \<Rightarrow> withId (\<lambda>i. InputNode i m tail) c1
         | KOutput m \<Rightarrow> withId (\<lambda>i. OutputNode i m tail) c1
         | KTask \<Rightarrow> withId (\<lambda>i. TaskNode i (btext b) tail) c1))"
  by (simp add: mergeLoop.simps(2) Let_def split_beta split: kind.splits)

lemma caseLoop_Cons:
  "caseLoop kw childIndent (cb # cbs) c =
     (let body = mergeBlocks kw (children cb) (childIndent + 4) c;
          r = caseLoop kw childIndent cbs (snd (uid (snd body)))
      in case capture1 (reCaseLabel kw (btext cb)) of
           Some m \<Rightarrow> (InsertCase (Some (fst (uid (snd body)))) (unquote m) (fst body) # fst r,
                       fst (snd r), snd (snd r))
         | None \<Rightarrow>
             if reElseBlock kw (btext cb)
             then (fst r,
                   Some (case fst (snd r) of Some d \<Rightarrow> d
                         | None \<Rightarrow> InsertCase (Some (fst (uid (snd body)))) (kw_default kw) (fst body)),
                   snd (snd r))
             else caseLoop kw childIndent cbs c)"
  by (simp add: caseLoop.simps(2) Let_def split_beta split: option.splits)

lemma shape_independent:
  shows "\<forall>c. eraseIds (fst (mergeBlocks kw lines baseIndent c)) = mergeShape kw lines baseIndent"
    and "\<forall>c. eraseIds (fst (mergeLoop kw baseIndent' pairs c)) = loopShape kw baseIndent' pairs"
    and "\<forall>c. (map eraseIds (fst (caseLoop kw childIndent cbs c)),
              map_option eraseIds (fst (snd (caseLoop kw childIndent cbs c))))
            = caseShapes kw childIndent cbs"
proof (induction kw lines baseIndent and kw baseIndent' pairs and kw childIndent cbs
       rule: mergeBlocks_mergeLoop_caseLoop.induct)
  case (1 kw lines baseIndent)
  then show ?case by (simp add: mergeShape_def[of kw lines baseIndent] mergeBlocks.simps erase_makeInsert)
next
  case (2 kw baseIndent)
  then show ?case by (simp add: loopShape_def[of kw baseIndent "[]"] erase_makeInsert)
next
  case (3 kw baseIndent b skip rest)
  let ?L = "mergeLoop kw baseIndent rest"
  have q: "\<And>c. eraseIds (fst (?L c)) = loopShape kw baseIndent rest" using 3(1) by simp
  have "\<forall>c. eraseIds (fst (mergeLoop kw baseIndent ((b, skip) # rest) c))
          = eraseIds (fst (mergeLoop kw baseIndent ((b, skip) # rest) 0))"
  proof (cases skip)
    case True
    then show ?thesis using q by (simp add: mergeLoop_Cons Let_def)
  next
    case False
    note ns = False
    show ?thesis
    proof (cases "classify kw (btext b) (nextText rest)")
      case KTryCatch
      have a: "\<And>c. eraseIds (fst (mergeBlocks kw (children b) (baseIndent + 4) c))
                 = mergeShape kw (children b) (baseIndent + 4)"
        using 3(2)[OF prod.collapse ns KTryCatch] by simp
      have b: "\<And>c. eraseIds (fst (mergeBlocks kw (nextChildren rest) (baseIndent + 4) c))
                 = mergeShape kw (nextChildren rest) (baseIndent + 4)"
        using 3(3)[OF prod.collapse ns KTryCatch prod.collapse] by simp
      show ?thesis using ns KTryCatch q a b
        by (simp add: mergeLoop_Cons Let_def erase_withId)
    next
      case KIfElse
      have a: "\<And>c. eraseIds (fst (mergeBlocks kw (children b) (baseIndent + 4) c))
                 = mergeShape kw (children b) (baseIndent + 4)"
        using 3(4)[OF prod.collapse ns KIfElse] by simp
      have b: "\<And>c. eraseIds (fst (mergeBlocks kw (nextChildren rest) (baseIndent + 4) c))
                 = mergeShape kw (nextChildren rest) (baseIndent + 4)"
        using 3(5)[OF prod.collapse ns KIfElse prod.collapse] by simp
      show ?thesis using ns KIfElse q a b
        by (simp add: mergeLoop_Cons Let_def erase_withId)
    next
      case KIf
      have a: "\<And>c. eraseIds (fst (mergeBlocks kw (children b) (baseIndent + 4) c))
                 = mergeShape kw (children b) (baseIndent + 4)"
        using 3(6)[OF prod.collapse ns KIf] by simp
      show ?thesis using ns KIf q a
        by (simp add: mergeLoop_Cons Let_def erase_branchWithoutElse)
    next
      case KFootLoop
      have a: "\<And>c. eraseIds (fst (mergeBlocks kw (children b) (baseIndent + 4) c))
                 = mergeShape kw (children b) (baseIndent + 4)"
        using 3(7)[OF prod.collapse ns KFootLoop] by simp
      show ?thesis using ns KFootLoop q a
        by (simp add: mergeLoop_Cons Let_def erase_withId)
    next
      case (KCountLoop m)
      have a: "\<And>c. eraseIds (fst (mergeBlocks kw (children b) (baseIndent + 4) c))
                 = mergeShape kw (children b) (baseIndent + 4)"
        using 3(8)[OF prod.collapse ns KCountLoop] by simp
      show ?thesis using ns KCountLoop q a
        by (simp add: mergeLoop_Cons Let_def erase_withId)
    next
      case (KHeadLoop m)
      have a: "\<And>c. eraseIds (fst (mergeBlocks kw (children b) (baseIndent + 4) c))
                 = mergeShape kw (children b) (baseIndent + 4)"
        using 3(9)[OF prod.collapse ns KHeadLoop] by simp
      show ?thesis using ns KHeadLoop q a
        by (simp add: mergeLoop_Cons Let_def erase_withId)
    next
      case (KFunction fname ps)
      have a: "\<And>c. eraseIds (fst (mergeBlocks kw (children b) (baseIndent + 4) c))
                 = mergeShape kw (children b) (baseIndent + 4)"
        using 3(10)[OF prod.collapse ns KFunction] by simp
      show ?thesis using ns KFunction q a
        by (simp add: mergeLoop_Cons Let_def erase_withId)
    next
      case (KSwitch rawVar)
      have a: "\<And>c. (map eraseIds (fst (caseLoop kw (baseIndent + 4) (groupBlocks (children b) (baseIndent + 4)) c)),
                     map_option eraseIds (fst (snd (caseLoop kw (baseIndent + 4) (groupBlocks (children b) (baseIndent + 4)) c))))
                 = caseShapes kw (baseIndent + 4) (groupBlocks (children b) (baseIndent + 4))"
        using 3(11)[OF prod.collapse ns KSwitch] by simp
      have a1: "map eraseIds (fst (caseLoop kw (baseIndent + 4) (groupBlocks (children b) (baseIndent + 4)) c))
                 = fst (caseShapes kw (baseIndent + 4) (groupBlocks (children b) (baseIndent + 4)))" for c
        using arg_cong[OF a[of c], of fst] by simp
      have a2: "map_option eraseIds (fst (snd (caseLoop kw (baseIndent + 4) (groupBlocks (children b) (baseIndent + 4)) c)))
                 = snd (caseShapes kw (baseIndent + 4) (groupBlocks (children b) (baseIndent + 4)))" for c
        using arg_cong[OF a[of c], of snd] by simp
      have fin: "\<And>cs d tail c. eraseIds (fst (finishSwitch kw rawVar cs d tail c))
          = InsertNode None (CaseNode None (fst (extractColumnWidths rawVar)) (snd (extractColumnWidths rawVar))
              (map_option eraseIds d \<noteq> None)
              (case map_option eraseIds d of Some d' \<Rightarrow> d'
               | None \<Rightarrow> InsertCase None (kw_default kw) (InsertNode None (Placeholder None)))
              (map eraseIds cs) (eraseIds tail))"
        by (simp add: erase_finishSwitch split: option.splits)
      show ?thesis using ns KSwitch q
        by (simp add: mergeLoop_Cons Let_def fin a1 a2)
    qed (use ns q in \<open>simp_all add: mergeLoop_Cons Let_def erase_withId\<close>)
  qed
  then show ?case by (simp add: loopShape_def[of kw baseIndent "(b, skip) # rest"])
next
  case (4 kw childIndent)
  then show ?case by (simp add: caseShapes_def[of kw childIndent "[]"])
next
  case (5 kw childIndent cb cbs)
  have "\<forall>c. (map eraseIds (fst (caseLoop kw childIndent (cb # cbs) c)),
              map_option eraseIds (fst (snd (caseLoop kw childIndent (cb # cbs) c))))
          = (map eraseIds (fst (caseLoop kw childIndent (cb # cbs) 0)),
              map_option eraseIds (fst (snd (caseLoop kw childIndent (cb # cbs) 0))))"
  proof (cases "capture1 (reCaseLabel kw (btext cb))")
    case (Some m)
    have a: "\<And>c. eraseIds (fst (mergeBlocks kw (children cb) (childIndent + 4) c))
               = mergeShape kw (children cb) (childIndent + 4)"
      using 5(4)[OF Some] by simp
    have r: "\<And>c. (map eraseIds (fst (caseLoop kw childIndent cbs c)),
              map_option eraseIds (fst (snd (caseLoop kw childIndent cbs c))))
            = caseShapes kw childIndent cbs"
      using 5(5)[OF Some prod.collapse] by simp
    have r1: "map eraseIds (fst (caseLoop kw childIndent cbs c)) = fst (caseShapes kw childIndent cbs)" for c
      using arg_cong[OF r[of c], of fst] by simp
    have r2: "map_option eraseIds (fst (snd (caseLoop kw childIndent cbs c))) = snd (caseShapes kw childIndent cbs)" for c
      using arg_cong[OF r[of c], of snd] by simp
    show ?thesis using Some a r1 r2
      by (simp add: caseLoop_Cons Let_def)
  next
    case None
    show ?thesis
    proof (cases "reElseBlock kw (btext cb)")
      case True
      have a: "\<And>c. eraseIds (fst (mergeBlocks kw (children cb) (childIndent + 4) c))
               = mergeShape kw (children cb) (childIndent + 4)"
        using 5(1)[OF None True] by simp
      have r: "\<And>c. (map eraseIds (fst (caseLoop kw childIndent cbs c)),
              map_option eraseIds (fst (snd (caseLoop kw childIndent cbs c))))
            = caseShapes kw childIndent cbs"
        using 5(2)[OF None True prod.collapse] by simp
      have r1: "map eraseIds (fst (caseLoop kw childIndent cbs c)) = fst (caseShapes kw childIndent cbs)" for c
        using arg_cong[OF r[of c], of fst] by simp
      have r2: "map_option eraseIds (fst (snd (caseLoop kw childIndent cbs c))) = snd (caseShapes kw childIndent cbs)" for c
        using arg_cong[OF r[of c], of snd] by simp
      have r3: "\<And>c. (fst (snd (caseLoop kw childIndent cbs c)) = None) = (snd (caseShapes kw childIndent cbs) = None)"
        using r2 by (metis option.map_disc_iff)
      show ?thesis using None True a r1
        apply (simp add: caseLoop_Cons Let_def)
        apply (intro allI)
        subgoal for c
          using r2[of "snd (uid (snd (mergeBlocks kw (children cb) (childIndent + 4) c)))"]
                r2[of "snd (uid (snd (mergeBlocks kw (children cb) (childIndent + 4) 0)))"]
          by (auto split: option.splits) (metis option.inject)
        done
    next
      case False
      have r: "\<And>c. (map eraseIds (fst (caseLoop kw childIndent cbs c)),
              map_option eraseIds (fst (snd (caseLoop kw childIndent cbs c))))
            = caseShapes kw childIndent cbs"
        using 5(3)[OF None False] by simp
      show ?thesis using None False r
        by (simp add: caseLoop_Cons Let_def)
    qed
  qed
  then show ?case by (simp add: caseShapes_def[of kw childIndent "cb # cbs"])
qed

lemma mergeShape_eq:
  "mergeShape kw lines baseIndent =
     (if groupBlocks lines baseIndent = [] then InsertNode None (Placeholder None)
      else loopShape kw baseIndent (prescan kw (groupBlocks lines baseIndent)))"
  by (simp add: mergeShape_def loopShape_def mergeBlocks.simps erase_makeInsert placeholder_def)

lemma erase_mergeBlocks: "eraseIds (fst (mergeBlocks kw lines baseIndent c)) = mergeShape kw lines baseIndent"
  using shape_independent(1) by blast

lemma erase_mergeLoop: "eraseIds (fst (mergeLoop kw baseIndent pairs c)) = loopShape kw baseIndent pairs"
  using shape_independent(2) by blast

lemma erase_caseLoop:
  "map eraseIds (fst (caseLoop kw childIndent cbs c)) = fst (caseShapes kw childIndent cbs)"
  "map_option eraseIds (fst (snd (caseLoop kw childIndent cbs c))) = snd (caseShapes kw childIndent cbs)"
  using shape_independent(3)[of kw childIndent cbs] by (metis fst_conv, metis snd_conv)

lemma loopShape_Nil: "loopShape kw baseIndent [] = InsertNode None Null"
  by (simp add: loopShape_def erase_makeInsert)

lemma loopShape_skip: "loopShape kw baseIndent ((b, True) # rest) = loopShape kw baseIndent rest"
  by (simp add: loopShape_def[of kw baseIndent "(b, True) # rest"] mergeLoop_Cons Let_def erase_mergeLoop)

lemma erase_finishSwitch':
  "eraseIds (fst (finishSwitch kw rawVar cs d tail c))
     = InsertNode None (CaseNode None (fst (extractColumnWidths rawVar)) (snd (extractColumnWidths rawVar))
         (map_option eraseIds d \<noteq> None)
         (case map_option eraseIds d of Some d' \<Rightarrow> d'
          | None \<Rightarrow> InsertCase None (kw_default kw) (InsertNode None (Placeholder None)))
         (map eraseIds cs) (eraseIds tail))"
  by (simp add: erase_finishSwitch split: option.splits)

lemma loopShape_step:
  "loopShape kw baseIndent ((b, False) # rest) = InsertNode None (stepShape kw baseIndent b rest)"
  by (cases "classify kw (btext b) (nextText rest)")
     (simp_all add: loopShape_def[of kw baseIndent "(b, False) # rest"] mergeLoop_Cons Let_def
        stepShape_def erase_mergeLoop erase_mergeBlocks erase_caseLoop erase_withId
        erase_branchWithoutElse erase_finishSwitch')









subsection \<open>Blocks that match no pattern\<close>










subsection \<open>The built-in keyword maps\<close>

lemma ciPrefix_clash:
  assumes "ciPrefix k t" "ciPrefix k' t" "i < length k" "i < length k'"
  shows "canonicalize (k ! i) = canonicalize (k' ! i)"
proof -
  from assms(1,3) have a: "canonicalize (t ! i) = canonicalize (k ! i)"
    unfolding ciPrefix_def
    by (metis (no_types, lifting) length_map length_take min.absorb2 nth_map nth_take)
  from assms(2,4) have b: "canonicalize (t ! i) = canonicalize (k' ! i)"
    unfolding ciPrefix_def
    by (metis (no_types, lifting) length_map length_take min.absorb2 nth_map nth_take)
  from a b show ?thesis by simp
qed

lemma blockPattern_ciPrefix: "blockPattern k t \<Longrightarrow> ciPrefix k t"
  by (simp add: blockPattern_def split: if_splits)

lemma prefixTest_ciPrefix: "prefixTest k t \<Longrightarrow> ciPrefix k t"
  by (simp add: prefixTest_def)

lemma secondHalf_patterns:
  "secondHalf kw a t \<Longrightarrow> reCatchPrefix kw t \<or> reElseBlock kw t \<or> reWhilePrefix kw t"
  by (simp add: secondHalf_def split: if_splits)

lemma builtin_if_block:
  assumes "kw = KEYWORDS_EN \<or> kw = KEYWORDS_DE" and "reIfPrefix kw t"
  shows "\<not> reTryBlock kw t \<and> \<not> secondHalf kw a t"
proof -
  from assms(2) have p: "ciPrefix (kw_if kw) t" by (simp add: reIfPrefix_def prefixTest_ciPrefix)
  have "\<not> ciPrefix (kw_try kw) t \<and> \<not> ciPrefix (kw_catch kw) t \<and> \<not> ciPrefix (kw_else kw) t
        \<and> \<not> ciPrefix (kw_while kw) t"
  proof (rule disjE[OF assms(1)])
    assume kw: "kw = KEYWORDS_EN"
    show ?thesis
      using ciPrefix_clash[OF p, of "kw_try kw" 0] ciPrefix_clash[OF p, of "kw_catch kw" 0]
        ciPrefix_clash[OF p, of "kw_else kw" 0] ciPrefix_clash[OF p, of "kw_while kw" 0]
      unfolding kw by (auto simp: KEYWORDS_EN_def canonicalize_def)
  next
    assume kw: "kw = KEYWORDS_DE"
    show ?thesis
      using ciPrefix_clash[OF p, of "kw_try kw" 0] ciPrefix_clash[OF p, of "kw_catch kw" 2]
        ciPrefix_clash[OF p, of "kw_else kw" 0] ciPrefix_clash[OF p, of "kw_while kw" 0]
      unfolding kw by (auto simp: KEYWORDS_DE_def canonicalize_def)
  qed
  then show ?thesis
    using secondHalf_patterns[of kw a t]
    by (auto simp: reTryBlock_def reCatchPrefix_def reElseBlock_def reWhilePrefix_def
          dest: blockPattern_ciPrefix prefixTest_ciPrefix)
qed

lemma builtin_repeat_block:
  assumes "kw = KEYWORDS_EN \<or> kw = KEYWORDS_DE" and "reRepeatBlock kw t"
  shows "\<not> reIfPrefix kw t \<and> \<not> reTryBlock kw t \<and> \<not> secondHalf kw a t"
proof -
  from assms(2) have p: "ciPrefix (kw_repeat kw) t"
    by (simp add: reRepeatBlock_def blockPattern_ciPrefix)
  have "\<not> ciPrefix (kw_if kw) t \<and> \<not> ciPrefix (kw_try kw) t \<and> \<not> ciPrefix (kw_catch kw) t
        \<and> \<not> ciPrefix (kw_else kw) t \<and> \<not> ciPrefix (kw_while kw) t"
  proof (rule disjE[OF assms(1)])
    assume kw: "kw = KEYWORDS_EN"
    show ?thesis
      using ciPrefix_clash[OF p, of "kw_if kw" 0]
        ciPrefix_clash[OF p, of "kw_try kw" 0] ciPrefix_clash[OF p, of "kw_catch kw" 0]
        ciPrefix_clash[OF p, of "kw_else kw" 0] ciPrefix_clash[OF p, of "kw_while kw" 0]
      unfolding kw by (auto simp: KEYWORDS_EN_def canonicalize_def)
  next
    assume kw: "kw = KEYWORDS_DE"
    show ?thesis
      using ciPrefix_clash[OF p, of "kw_if kw" 0]
        ciPrefix_clash[OF p, of "kw_try kw" 0] ciPrefix_clash[OF p, of "kw_catch kw" 0]
        ciPrefix_clash[OF p, of "kw_else kw" 0] ciPrefix_clash[OF p, of "kw_while kw" 0]
      unfolding kw by (auto simp: KEYWORDS_DE_def canonicalize_def)
  qed
  then show ?thesis
    using secondHalf_patterns[of kw a t]
    by (auto simp: reIfPrefix_def reTryBlock_def reCatchPrefix_def reElseBlock_def reWhilePrefix_def
          dest: blockPattern_ciPrefix prefixTest_ciPrefix)
qed

subsection \<open>Plain statements: the fallback\<close>





subsection \<open>Pairs of blocks\<close>




lemma nextMatches_Cons: "nextMatches p (nextText ((nb, s) # rest)) = p (btext nb)"
  by (simp add: nextMatches_def)

lemma nextMatches_Nil: "nextMatches p (nextText []) = False"
  by (simp add: nextMatches_def)









subsection \<open>Column widths\<close>

lemma widths_case:
  "snd (case r of Some [m1, m2] \<Rightarrow> (f m1, if g m2 \<noteq> [] then Some (g m2) else None)
        | _ \<Rightarrow> (s, None)) \<noteq> Some ([]::real list)"
  by (simp split: option.split list.split)

lemma extract_not_empty: "snd (extractColumnWidths s) \<noteq> Some []"
  unfolding extractColumnWidths_def Let_def by (rule widths_case)

lemma branchCond_not_empty: "snd (branchCond kw text) \<noteq> Some []"
  by (simp add: branchCond_def extract_not_empty)

lemma widthsNonEmpty_erase: "widthsNonEmpty (eraseIds n) = widthsNonEmpty n"
  by (induction n) (auto simp: list_all_iff)

lemma caseShapes_Nil: "caseShapes kw childIndent [] = ([], None)"
  by (simp add: caseShapes_def)

lemma caseShapes_Cons:
  "caseShapes kw childIndent (cb # cbs) =
     (case capture1 (reCaseLabel kw (btext cb)) of
        Some m \<Rightarrow> (InsertCase None (unquote m) (mergeShape kw (children cb) (childIndent + 4))
                      # fst (caseShapes kw childIndent cbs),
                    snd (caseShapes kw childIndent cbs))
      | None \<Rightarrow>
          if reElseBlock kw (btext cb)
          then (fst (caseShapes kw childIndent cbs),
                Some (case snd (caseShapes kw childIndent cbs) of Some d \<Rightarrow> d
                      | None \<Rightarrow> InsertCase None (kw_default kw)
                                  (mergeShape kw (children cb) (childIndent + 4))))
          else caseShapes kw childIndent cbs)"
proof -
  let ?body = "mergeBlocks kw (children cb) (childIndent + 4) 0"
  let ?r = "caseLoop kw childIndent cbs (snd (uid (snd ?body)))"
  have r1: "fst (caseShapes kw childIndent cbs) = map eraseIds (fst ?r)"
    and r2: "snd (caseShapes kw childIndent cbs) = map_option eraseIds (fst (snd ?r))"
    by (simp_all add: erase_caseLoop)
  have m: "eraseIds (fst ?body) = mergeShape kw (children cb) (childIndent + 4)"
    by (simp add: mergeShape_def)
  have L: "caseShapes kw childIndent (cb # cbs) =
             (map eraseIds (fst (caseLoop kw childIndent (cb # cbs) 0)),
              map_option eraseIds (fst (snd (caseLoop kw childIndent (cb # cbs) 0))))"
    by (simp add: caseShapes_def)
  show ?thesis
  proof (cases "capture1 (reCaseLabel kw (btext cb))")
    case (Some l)
    then show ?thesis
      unfolding L r1 r2 by (simp add: caseLoop_Cons Let_def m)
  next
    case None
    note nolabel = None
    show ?thesis
    proof (cases "reElseBlock kw (btext cb)")
      case True
      show ?thesis
      proof (cases "fst (snd ?r)")
        case None
        then show ?thesis using nolabel True
          unfolding L r1 r2 by (simp add: caseLoop_Cons Let_def m)
      next
        case (Some d)
        then show ?thesis using nolabel True
          unfolding L r1 r2 by (simp add: caseLoop_Cons Let_def m)
      qed
    next
      case False
      have "caseLoop kw childIndent (cb # cbs) 0 = caseLoop kw childIndent cbs 0"
        using nolabel False by (simp add: caseLoop_Cons Let_def)
      then show ?thesis using nolabel False
        unfolding L by (simp add: caseShapes_def)
    qed
  qed
qed

lemma shapes_widths:
  shows "widthsNonEmpty (mergeShape kw lines baseIndent)"
    and "widthsNonEmpty (loopShape kw baseIndent' pairs)"
    and "list_all widthsNonEmpty (fst (caseShapes kw childIndent cbs))
         \<and> (\<forall>d. snd (caseShapes kw childIndent cbs) = Some d \<longrightarrow> widthsNonEmpty d)"
proof (induction kw lines baseIndent and kw baseIndent' pairs and kw childIndent cbs
       rule: mergeBlocks_mergeLoop_caseLoop.induct)
  case (1 kw lines baseIndent)
  then show ?case by (simp add: mergeShape_eq)
next
  case (2 kw baseIndent)
  then show ?case by (simp add: loopShape_Nil)
next
  case (3 kw baseIndent b skip rest)
  have tail: "widthsNonEmpty (loopShape kw baseIndent rest)" using 3(1) by simp
  show ?case
  proof (cases skip)
    case True
    then show ?thesis using tail by (simp add: loopShape_skip)
  next
    case False
    note ns = False
    have "widthsNonEmpty (stepShape kw baseIndent b rest)"
    proof (cases "classify kw (btext b) (nextText rest)")
      case KTryCatch
      with 3(2)[OF prod.collapse ns KTryCatch] 3(3)[OF prod.collapse ns KTryCatch prod.collapse] tail
      show ?thesis by (simp add: stepShape_def Let_def)
    next
      case KIfElse
      with 3(4)[OF prod.collapse ns KIfElse] 3(5)[OF prod.collapse ns KIfElse prod.collapse] tail
      show ?thesis by (simp add: stepShape_def Let_def branchCond_not_empty)
    next
      case KIf
      with 3(6)[OF prod.collapse ns KIf] tail
      show ?thesis by (simp add: stepShape_def Let_def branchCond_not_empty)
    next
      case KFootLoop
      with 3(7)[OF prod.collapse ns KFootLoop] tail
      show ?thesis by (simp add: stepShape_def Let_def)
    next
      case (KCountLoop m)
      with 3(8)[OF prod.collapse ns KCountLoop] tail
      show ?thesis by (simp add: stepShape_def Let_def)
    next
      case (KHeadLoop m)
      with 3(9)[OF prod.collapse ns KHeadLoop] tail
      show ?thesis by (simp add: stepShape_def Let_def)
    next
      case (KFunction fname ps)
      with 3(10)[OF prod.collapse ns KFunction] tail
      show ?thesis by (simp add: stepShape_def Let_def)
    next
      case (KSwitch rawVar)
      from 3(11)[OF prod.collapse ns KSwitch]
      have cs: "list_all widthsNonEmpty (fst (caseShapes kw (baseIndent + 4) (groupBlocks (children b) (baseIndent + 4))))"
        and d: "\<And>d. snd (caseShapes kw (baseIndent + 4) (groupBlocks (children b) (baseIndent + 4))) = Some d
                  \<Longrightarrow> widthsNonEmpty d"
        by simp_all
      show ?thesis
      proof (cases "snd (caseShapes kw (baseIndent + 4) (groupBlocks (children b) (baseIndent + 4)))")
        case None
        with KSwitch cs tail show ?thesis
          by (simp add: stepShape_def Let_def extract_not_empty)
      next
        case (Some dd)
        with KSwitch cs d[OF Some] tail show ?thesis
          by (simp add: stepShape_def Let_def extract_not_empty)
      qed
    qed (use tail in \<open>simp_all add: stepShape_def Let_def\<close>)
    then show ?thesis using ns by (simp add: loopShape_step)
  qed
next
  case (4 kw childIndent)
  then show ?case by (simp add: caseShapes_Nil)
next
  case (5 kw childIndent cb cbs)
  show ?case
  proof (cases "capture1 (reCaseLabel kw (btext cb))")
    case (Some m)
    with 5(4)[OF Some] 5(5)[OF Some prod.collapse]
    show ?thesis by (simp add: caseShapes_Cons)
  next
    case None
    note nolabel = None
    show ?thesis
    proof (cases "reElseBlock kw (btext cb)")
      case True
      from 5(1)[OF nolabel True] have body: "widthsNonEmpty (mergeShape kw (children cb) (childIndent + 4))" .
      from 5(2)[OF nolabel True prod.collapse]
      have cs: "list_all widthsNonEmpty (fst (caseShapes kw childIndent cbs))"
        and d: "\<And>d. snd (caseShapes kw childIndent cbs) = Some d \<Longrightarrow> widthsNonEmpty d"
        by simp_all
      show ?thesis
      proof (cases "snd (caseShapes kw childIndent cbs)")
        case None
        with nolabel True body cs show ?thesis by (simp add: caseShapes_Cons)
      next
        case (Some dd)
        with nolabel True body cs d[OF Some] show ?thesis by (simp add: caseShapes_Cons)
      qed
    next
      case False
      with 5(3)[OF nolabel False] nolabel
      show ?thesis by (simp add: caseShapes_Cons)
    qed
  qed
qed

lemma length_columnWidths: "length (columnWidths w n cw) = n"
  by (simp add: columnWidths_def split: option.splits)

text \<open>
  Claim C9, as the code has it. \<open>extractColumnWidths\<close> keeps the numbers it reads between
  the brackets, however many there are, and gives \<open>null\<close> when there is none: in every
  tree \<open>parsePseudocode\<close> returns, a \<open>columnWidths\<close> array that is present has at least
  one entry. Its length is not compared with the number of columns anywhere in the
  parser. The renderer's \<open>columnWidths\<close> makes up for that: it always answers with as
  many widths as there are columns, and when the number of fractions is not the number
  of columns it ignores them and makes the columns equally wide.
\<close>

theorem column_widths_present_non_empty:
  "widthsNonEmpty (parsePseudocode source kw)
   \<and> length (columnWidths w n cw) = n
   \<and> (\<forall>fr. cw = Some fr \<and> length fr \<noteq> n \<longrightarrow> columnWidths w n cw = replicate n (w / real n))"
proof -
  have "widthsNonEmpty (eraseIds (parsePseudocode source kw))"
    by (simp add: parsePseudocode_def Let_def erase_mergeBlocks erase_makeInsert shapes_widths(1)
          placeholder_def)
  then have "widthsNonEmpty (parsePseudocode source kw)" by (simp add: widthsNonEmpty_erase)
  moreover have "\<forall>fr. cw = Some fr \<and> length fr \<noteq> n
                    \<longrightarrow> columnWidths w n cw = replicate n (w / real n)"
    by (simp add: columnWidths_def)
  ultimately show ?thesis by (simp add: length_columnWidths)
qed

theorem column_widths_present_non_empty_witness:
  "widthsNonEmpty (parsePseudocode ''if a[1]:'' KEYWORDS_EN)
   \<and> length (columnWidths 100 2 (Some [1])) = 2
   \<and> length [1::real] \<noteq> 2
   \<and> columnWidths 100 2 (Some [1]) = replicate 2 (100 / real 2)"
  using column_widths_present_non_empty[of "''if a[1]:''" KEYWORDS_EN 100 2 "Some [1]"]
  by simp

text \<open>
  The claim as written fails for a condition that ends in an index: \<open>if a[1]:\<close> is read
  as the condition \<open>a\<close> with the one column width 1, on a branch, which has two columns.
\<close>

theorem column_widths_length_counterexample:
  "parsePseudocode ''if a[1]:'' KEYWORDS_EN
     = InsertNode (Some ''__pseudo_5'')
         (BranchNode (Some ''__pseudo_3'') ''a'' (Some [1])
           (InsertNode (Some ''__pseudo_2'') (Placeholder None))
           (InsertNode (Some ''__pseudo_4'') (Placeholder None))
           (InsertNode (Some ''__pseudo_1'') Null))
   \<and> length [1::real] \<noteq> 2"
  by code_simp


subsection \<open>Round trip through the serializer\<close>

text \<open>
  Claim C1. The header of the serializer calls it the inverse of \<open>parsePseudocode\<close>, and
  the claim says that parsing, serializing and parsing again gives the first tree up to
  identifiers. \<open>tokenize\<close> tests \<open>startsWith("#")\<close> on the line with only its end
  trimmed and then stores the line trimmed at both ends, so an indented comment line is
  kept as the statement \<open># note\<close>. In a text whose lines are all indented the statement
  is on the top-level chain; the serializer prints it at column 0, and there the second
  parse takes it for a comment and drops it. The second tree has one statement, the
  first has two.
\<close>

theorem round_trip_breaks_on_indented_comment:
  "parsePseudocode (''    # note'' @ [nl] @ ''    x = 1'') KEYWORDS_EN
     = InsertNode (Some ''__pseudo_5'')
         (TaskNode (Some ''__pseudo_4'') ''# note''
           (InsertNode (Some ''__pseudo_3'')
             (TaskNode (Some ''__pseudo_2'') ''x = 1'' (InsertNode (Some ''__pseudo_1'') Null))))
   \<and> treeToPseudocode fmt (parsePseudocode (''    # note'' @ [nl] @ ''    x = 1'') KEYWORDS_EN) KEYWORDS_EN
       = Inr (''# note'' @ [nl] @ ''x = 1'')
   \<and> parsePseudocode (''# note'' @ [nl] @ ''x = 1'') KEYWORDS_EN
       = InsertNode (Some ''__pseudo_3'')
           (TaskNode (Some ''__pseudo_2'') ''x = 1'' (InsertNode (Some ''__pseudo_1'') Null))
   \<and> eraseIds (parsePseudocode (''# note'' @ [nl] @ ''x = 1'') KEYWORDS_EN)
       \<noteq> eraseIds (parsePseudocode (''    # note'' @ [nl] @ ''    x = 1'') KEYWORDS_EN)"
  by code_simp

end
